theory Spec2Isabelle
  imports Main "HOL-Library.AList"
begin

section \<open>The CSV converter \<^verbatim>\<open>scripts/parse_csv.py\<close>\<close>

text \<open>
  The script reads three CSV files with \<^verbatim>\<open>csv.DictReader\<close>, normalises every row with
  one of three transformers and writes each collection with \<^verbatim>\<open>json.dump(..., indent=2)\<close>.

  A Python \<^verbatim>\<open>str\<close> is a sequence of code points. The model's \<^typ>\<open>string\<close> holds the
  code points below 256, one \<^typ>\<open>char\<close> each. In that range Unicode has the whitespace
  characters U+0009..U+000D, U+001C..U+001F, U+0020, U+0085 and U+00A0, and no decimal
  digits but \<^verbatim>\<open>0\<close>..\<^verbatim>\<open>9\<close>. Python's integers are unbounded: \<^typ>\<open>int\<close>. The
  interpreter caps the number of digits in a conversion between \<^verbatim>\<open>str\<close> and
  \<^verbatim>\<open>int\<close> (\<^verbatim>\<open>sys.get_int_max_str_digits()\<close>, 4300 unless the run sets it
  otherwise): \<^verbatim>\<open>int(s)\<close> raises \<^verbatim>\<open>ValueError\<close> on a literal with more digits. The
  script sets nothing, so the model takes the default. An integer a transformer returns
  has at most that many digits, so the conversions of the writer stay below the cap.
\<close>

subsection \<open>Exceptions\<close>

datatype py_error = ValueError | AttributeError | FileNotFoundError

fun bind_res :: "py_error + 'a \<Rightarrow> ('a \<Rightarrow> py_error + 'b) \<Rightarrow> py_error + 'b" where
  "bind_res (Inl e) f = Inl e"
| "bind_res (Inr v) f = f v"

subsection \<open>String built-ins: \<^verbatim>\<open>str.strip\<close>, \<^verbatim>\<open>str.split\<close>, \<^verbatim>\<open>int\<close>\<close>

definition isspace :: "char \<Rightarrow> bool" where
  "isspace c = (c \<in> set [CHR 0x09, CHR 0x0A, CHR 0x0B, CHR 0x0C, CHR 0x0D,
                        CHR 0x1C, CHR 0x1D, CHR 0x1E, CHR 0x1F, CHR 0x20,
                        CHR 0x85, CHR 0xA0])"

text \<open>\<^verbatim>\<open>s.strip()\<close>: the longest run of whitespace is removed at both ends.\<close>

definition py_strip :: "string \<Rightarrow> string" where
  "py_strip s = rev (dropWhile isspace (rev (dropWhile isspace s)))"

text \<open>\<^verbatim>\<open>s.split(sep)\<close> for a one-character separator: never an empty list, and
  \<^verbatim>\<open>"".split(",")\<close> is \<^verbatim>\<open>[""]\<close>.\<close>

fun py_split :: "char \<Rightarrow> string \<Rightarrow> string list" where
  "py_split sep [] = [[]]"
| "py_split sep (c # cs) =
     (if c = sep then [] # py_split sep cs
      else (case py_split sep cs of
              [] \<Rightarrow> [[c]]
            | p # ps \<Rightarrow> (c # p) # ps))"

definition isdigit :: "char \<Rightarrow> bool" where
  "isdigit c = (c \<in> set ''0123456789'')"

definition digit_value :: "char \<Rightarrow> int" where
  "digit_value c = int (of_char c) - 48"

text \<open>
  The scan of the digits of \<^verbatim>\<open>int(s)\<close>, as the interpreter does it: the first
  argument is the previous character. Digits and single underscores between digits are
  accepted; a doubled or a trailing underscore and any other character are not.
\<close>

fun scan_digits :: "char \<Rightarrow> string \<Rightarrow> bool" where
  "scan_digits prev [] = (prev \<noteq> CHR ''_'')"
| "scan_digits prev (c # cs) =
     (if c = CHR ''_'' then prev \<noteq> CHR ''_'' \<and> scan_digits c cs
      else if isdigit c then scan_digits c cs
      else False)"

definition int_literal_ok :: "string \<Rightarrow> bool" where
  "int_literal_ok b =
     (case b of
        [] \<Rightarrow> False
      | c # cs \<Rightarrow> c \<noteq> CHR ''_'' \<and> scan_digits (CHR 0x00) b)"

definition decimal_value :: "string \<Rightarrow> int" where
  "decimal_value b = foldl (\<lambda>a c. 10 * a + digit_value c) 0 (filter isdigit b)"

text \<open>
  \<^verbatim>\<open>int(s)\<close> on a string, base 10: surrounding whitespace is ignored, one sign may
  precede the digits with nothing in between, and everything else raises
  \<^verbatim>\<open>ValueError\<close>; so does the empty string, and so does a literal with more digits
  than the cap allows (underscores and the sign are not counted).
\<close>

definition int_max_str_digits :: nat where
  "int_max_str_digits = 4300"

definition py_int :: "string \<Rightarrow> py_error + int" where
  "py_int s =
     (let t = py_strip s;
          (sign, body) =
            (case t of
               [] \<Rightarrow> (1, t)
             | c # cs \<Rightarrow>
                 if c = CHR ''+'' then (1, cs)
                 else if c = CHR ''-'' then (- 1, cs)
                 else (1, t))
      in if int_literal_ok body then
           (if length (filter isdigit body) > int_max_str_digits then Inl ValueError
            else Inr (sign * decimal_value body))
         else Inl ValueError)"

subsection \<open>Rows as \<^verbatim>\<open>csv.DictReader\<close> yields them\<close>

text \<open>
  A value of a row is a string, \<^verbatim>\<open>None\<close> (the \<^verbatim>\<open>restval\<close> of a row shorter than the
  header) or a list of strings (the surplus cells of a longer row, stored under the key
  \<^verbatim>\<open>None\<close>, the \<^verbatim>\<open>restkey\<close>). A dict keeps insertion order: an association list
  whose keys are distinct, updated in place by \<^const>\<open>AList.update\<close>.
\<close>

datatype pyval = Str string | PyNone | StrList "string list"

type_synonym row = "(string option \<times> pyval) list"

text \<open>\<^verbatim>\<open>raw.get(key, default)\<close>\<close>

definition dict_get :: "row \<Rightarrow> string \<Rightarrow> string \<Rightarrow> pyval" where
  "dict_get raw k d = (case map_of raw (Some k) of None \<Rightarrow> Str d | Some v \<Rightarrow> v)"

text \<open>Only a \<^verbatim>\<open>str\<close> has the methods \<^verbatim>\<open>strip\<close> and \<^verbatim>\<open>split\<close>.\<close>

fun strip_method :: "pyval \<Rightarrow> py_error + string" where
  "strip_method (Str s) = Inr (py_strip s)"
| "strip_method PyNone = Inl AttributeError"
| "strip_method (StrList xs) = Inl AttributeError"

fun split_method :: "pyval \<Rightarrow> char \<Rightarrow> py_error + string list" where
  "split_method (Str s) sep = Inr (py_split sep s)"
| "split_method PyNone sep = Inl AttributeError"
| "split_method (StrList xs) sep = Inl AttributeError"

subsection \<open>The transformers\<close>

text \<open>
  The three kinds of field, as the dict displays of the transformers write them:
  \<^verbatim>\<open>raw.get(k, "").strip()\<close>,
  \<^verbatim>\<open>[s.strip() for s in raw.get(k, "").split(",") if s.strip()]\<close> and
  \<^verbatim>\<open>int(raw.get(k, "0").strip())\<close>.
\<close>

datatype field_value = StrV string | ListV "string list" | IntV int

type_synonym entity = "(string \<times> field_value) list"

definition str_field :: "row \<Rightarrow> string \<Rightarrow> py_error + string" where
  "str_field raw k = strip_method (dict_get raw k [])"

definition list_field :: "row \<Rightarrow> string \<Rightarrow> py_error + string list" where
  "list_field raw k =
     bind_res (split_method (dict_get raw k []) (CHR '',''))
       (\<lambda>pieces. Inr (map py_strip (filter (\<lambda>s. py_strip s \<noteq> []) pieces)))"

definition int_field :: "row \<Rightarrow> string \<Rightarrow> py_error + int" where
  "int_field raw k = bind_res (strip_method (dict_get raw k ''0'')) py_int"

text \<open>
  A dict display evaluates its values in the order written; the first exception ends
  the evaluation.
\<close>

definition transform_pilot :: "row \<Rightarrow> py_error + entity" where
  "transform_pilot raw =
     bind_res (str_field raw ''pilot_id'') (\<lambda>pilot_id.
     bind_res (str_field raw ''name'') (\<lambda>name.
     bind_res (list_field raw ''skills'') (\<lambda>skills.
     bind_res (list_field raw ''certifications'') (\<lambda>certifications.
     bind_res (str_field raw ''location'') (\<lambda>location.
     bind_res (str_field raw ''status'') (\<lambda>status.
     bind_res (str_field raw ''current_assignment'') (\<lambda>current_assignment.
     bind_res (str_field raw ''available_from'') (\<lambda>available_from.
     bind_res (int_field raw ''daily_rate_inr'') (\<lambda>daily_rate_inr.
     Inr [(''pilot_id'', StrV pilot_id),
          (''name'', StrV name),
          (''skills'', ListV skills),
          (''certifications'', ListV certifications),
          (''location'', StrV location),
          (''status'', StrV status),
          (''current_assignment'', StrV current_assignment),
          (''available_from'', StrV available_from),
          (''daily_rate_inr'', IntV daily_rate_inr)])))))))))"

definition transform_drone :: "row \<Rightarrow> py_error + entity" where
  "transform_drone raw =
     bind_res (str_field raw ''drone_id'') (\<lambda>drone_id.
     bind_res (str_field raw ''model'') (\<lambda>model.
     bind_res (list_field raw ''capabilities'') (\<lambda>capabilities.
     bind_res (str_field raw ''status'') (\<lambda>status.
     bind_res (str_field raw ''location'') (\<lambda>location.
     bind_res (str_field raw ''current_assignment'') (\<lambda>current_assignment.
     bind_res (str_field raw ''maintenance_due'') (\<lambda>maintenance_due.
     bind_res (str_field raw ''weather_resistance'') (\<lambda>weather_resistance.
     Inr [(''drone_id'', StrV drone_id),
          (''model'', StrV model),
          (''capabilities'', ListV capabilities),
          (''status'', StrV status),
          (''location'', StrV location),
          (''current_assignment'', StrV current_assignment),
          (''maintenance_due'', StrV maintenance_due),
          (''weather_resistance'', StrV weather_resistance)]))))))))"

definition transform_mission :: "row \<Rightarrow> py_error + entity" where
  "transform_mission raw =
     bind_res (str_field raw ''project_id'') (\<lambda>project_id.
     bind_res (str_field raw ''client'') (\<lambda>client.
     bind_res (str_field raw ''location'') (\<lambda>location.
     bind_res (list_field raw ''required_skills'') (\<lambda>required_skills.
     bind_res (list_field raw ''required_certs'') (\<lambda>required_certs.
     bind_res (str_field raw ''start_date'') (\<lambda>start_date.
     bind_res (str_field raw ''end_date'') (\<lambda>end_date.
     bind_res (str_field raw ''priority'') (\<lambda>priority.
     bind_res (int_field raw ''mission_budget_inr'') (\<lambda>mission_budget_inr.
     bind_res (str_field raw ''weather_forecast'') (\<lambda>weather_forecast.
     Inr [(''project_id'', StrV project_id),
          (''client'', StrV client),
          (''location'', StrV location),
          (''required_skills'', ListV required_skills),
          (''required_certs'', ListV required_certs),
          (''start_date'', StrV start_date),
          (''end_date'', StrV end_date),
          (''priority'', StrV priority),
          (''mission_budget_inr'', IntV mission_budget_inr),
          (''weather_forecast'', StrV weather_forecast)]))))))))))"

text \<open>A row whose keys and values are all strings, as a transformer's caller may pass it.\<close>

definition str_row :: "(string \<times> string) list \<Rightarrow> row" where
  "str_row kvs = map (\<lambda>(k, v). (Some k, Str v)) kvs"

subsection \<open>The row reader\<close>

text \<open>
  A CSV file is modelled by the rows \<^verbatim>\<open>csv.reader\<close> yields from it, each a list of
  cells; a blank line is the row \<^verbatim>\<open>[]\<close>. \<^verbatim>\<open>csv.DictReader\<close> takes the first row as
  the field names, skips the rows equal to \<^verbatim>\<open>[]\<close> and turns every other row into
  \<^verbatim>\<open>dict(zip(fieldnames, row))\<close>; the surplus cells of a longer row are stored as one
  list under the key \<^verbatim>\<open>None\<close>, and the missing fields of a shorter row get the value
  \<^verbatim>\<open>None\<close>.
\<close>

definition dict_of :: "('k \<times> 'v) list \<Rightarrow> ('k \<times> 'v) list" where
  "dict_of kvs = foldl (\<lambda>d (k, v). AList.update k v d) [] kvs"

definition dict_reader_row :: "string list \<Rightarrow> string list \<Rightarrow> row" where
  "dict_reader_row fieldnames r =
     (let d = dict_of (zip (map Some fieldnames) (map Str r));
          lf = length fieldnames;
          lr = length r
      in if lf < lr then AList.update None (StrList (drop lf r)) d
         else if lf > lr
           then foldl (\<lambda>d key. AList.update (Some key) PyNone d) d (drop lr fieldnames)
         else d)"

definition dict_reader :: "string list list \<Rightarrow> row list" where
  "dict_reader rows =
     (case rows of
        [] \<Rightarrow> []
      | fieldnames # rest \<Rightarrow> map (dict_reader_row fieldnames) (filter (\<lambda>r. r \<noteq> []) rest))"

text \<open>Truth values: \<^verbatim>\<open>""\<close>, \<^verbatim>\<open>None\<close> and \<^verbatim>\<open>[]\<close> are false.\<close>

fun truthy :: "pyval \<Rightarrow> bool" where
  "truthy (Str s) = (s \<noteq> [])"
| "truthy PyNone = False"
| "truthy (StrList xs) = (xs \<noteq> [])"

definition py_any :: "pyval list \<Rightarrow> bool" where
  "py_any vs = list_ex truthy vs"

text \<open>The loop of \<^verbatim>\<open>parse_csv_to_records\<close>, with the list \<^verbatim>\<open>records\<close> it appends to.\<close>

fun collect_records :: "row list \<Rightarrow> row list \<Rightarrow> row list" where
  "collect_records records [] = records"
| "collect_records records (row # rest) =
     (if \<not> py_any (map snd row) then collect_records records rest
      else collect_records (records @ [row]) rest)"

text \<open>Opening a file that is not there raises \<^verbatim>\<open>FileNotFoundError\<close>.\<close>

definition parse_csv_to_records ::
    "(string \<rightharpoonup> string list list) \<Rightarrow> string \<Rightarrow> py_error + row list" where
  "parse_csv_to_records files csv_path =
     (case files csv_path of
        None \<Rightarrow> Inl FileNotFoundError
      | Some rows \<Rightarrow> Inr (collect_records [] (dict_reader rows)))"

subsection \<open>The writer: \<^verbatim>\<open>json.dump(..., indent=2)\<close>\<close>

text \<open>\<^verbatim>\<open>sep.join(xs)\<close>\<close>

fun join :: "string \<Rightarrow> string list \<Rightarrow> string" where
  "join sep [] = []"
| "join sep [x] = x"
| "join sep (x # y # ys) = x @ sep @ join sep (y # ys)"

text \<open>
  Strings are written between double quotes with \<^verbatim>\<open>ensure_ascii\<close>: the quote and the
  backslash are escaped, the control characters with a short escape get it, every
  character from the space to the tilde stands for itself, and every other one is written
  as \<^verbatim>\<open>\u00XX\<close> in lower-case hexadecimal.
\<close>

definition hex_digit :: "nat \<Rightarrow> char" where
  "hex_digit n = ''0123456789abcdef'' ! (n mod 16)"

definition escape_char :: "char \<Rightarrow> string" where
  "escape_char c =
     (if c = CHR 0x22 then [CHR 0x5C, CHR 0x22]
      else if c = CHR 0x5C then [CHR 0x5C, CHR 0x5C]
      else if c = CHR 0x08 then [CHR 0x5C, CHR ''b'']
      else if c = CHR 0x0C then [CHR 0x5C, CHR ''f'']
      else if c = CHR 0x0A then [CHR 0x5C, CHR ''n'']
      else if c = CHR 0x0D then [CHR 0x5C, CHR ''r'']
      else if c = CHR 0x09 then [CHR 0x5C, CHR ''t'']
      else if 0x20 \<le> (of_char c :: nat) \<and> (of_char c :: nat) \<le> 0x7E then [c]
      else [CHR 0x5C, CHR ''u'', CHR ''0'', CHR ''0'',
            hex_digit (of_char c div 16), hex_digit (of_char c mod 16)])"

definition encode_string :: "string \<Rightarrow> string" where
  "encode_string s = CHR 0x22 # concat (map escape_char s) @ [CHR 0x22]"

text \<open>An integer is written in decimal, with a minus sign when negative.\<close>

definition digit_char :: "nat \<Rightarrow> char" where
  "digit_char n = ''0123456789'' ! (n mod 10)"

function nat_repr :: "nat \<Rightarrow> string" where
  "nat_repr n = (if n < 10 then [digit_char n] else nat_repr (n div 10) @ [digit_char (n mod 10)])"
  by pat_completeness auto
termination
  by (relation "measure (\<lambda>n. n)") auto

declare nat_repr.simps [simp del]

definition int_repr :: "int \<Rightarrow> string" where
  "int_repr i = (if i < 0 then CHR ''-'' # nat_repr (nat (- i)) else nat_repr (nat i))"

text \<open>
  With an indent, an empty list or dict is written \<^verbatim>\<open>[]\<close> or \<^verbatim>\<open>{}\<close>; otherwise
  every item stands on a line of its own, indented by two spaces per level, the items are
  separated by a comma, and the closing bracket is on a line of its own at the level of
  the container. A key and its value are separated by a colon and a space.
\<close>

definition newline_indent :: "nat \<Rightarrow> string" where
  "newline_indent level = CHR 0x0A # replicate (2 * level) (CHR '' '')"

definition encode_list :: "nat \<Rightarrow> string list \<Rightarrow> string" where
  "encode_list level items =
     (if items = [] then ''[]''
      else ''['' @ newline_indent (level + 1) @
           join ('','' @ newline_indent (level + 1)) items @
           newline_indent level @ '']'')"

fun encode_value :: "nat \<Rightarrow> field_value \<Rightarrow> string" where
  "encode_value level (StrV s) = encode_string s"
| "encode_value level (IntV i) = int_repr i"
| "encode_value level (ListV xs) = encode_list level (map encode_string xs)"

definition encode_pair :: "nat \<Rightarrow> string \<times> field_value \<Rightarrow> string" where
  "encode_pair level kv = encode_string (fst kv) @ '': '' @ encode_value level (snd kv)"

definition encode_dict :: "nat \<Rightarrow> entity \<Rightarrow> string" where
  "encode_dict level e =
     (if e = [] then ''{}''
      else ''{'' @ newline_indent (level + 1) @
           join ('','' @ newline_indent (level + 1)) (map (encode_pair (level + 1)) e) @
           newline_indent level @ ''}'')"

definition json_dumps :: "entity list \<Rightarrow> string" where
  "json_dumps entities = encode_list 0 (map (encode_dict 1) entities)"

subsection \<open>The orchestrator \<^verbatim>\<open>main\<close>\<close>

text \<open>
  The world \<^verbatim>\<open>main\<close> acts on: the CSV files it can read, by path; the JSON documents
  written so far, by path; and the lines printed. Directories are not modelled:
  \<^verbatim>\<open>os.makedirs(OUTPUT_DIR, exist_ok=True)\<close> is taken to succeed, and so is every write.
  An exception ends the run and leaves the world as it is at that point.
\<close>

datatype message = Parsed nat string string | AllParsed

record world =
  csv_files :: "string \<rightharpoonup> string list list"
  json_files :: "string \<rightharpoonup> string"
  stdout :: "message list"

type_synonym 'a action = "world \<Rightarrow> (py_error + 'a) \<times> world"

definition bind_act :: "'a action \<Rightarrow> ('a \<Rightarrow> 'b action) \<Rightarrow> 'b action" where
  "bind_act m f w =
     (case m w of
        (Inl e, w') \<Rightarrow> (Inl e, w')
      | (Inr v, w') \<Rightarrow> f v w')"

definition CSV_DIR :: string where
  "CSV_DIR = ''CSV_data_files''"

definition OUTPUT_DIR :: string where
  "OUTPUT_DIR = ''skylark-agent/src/data''"

definition path_join :: "string \<Rightarrow> string \<Rightarrow> string" where
  "path_join dir name = dir @ ''/'' @ name"

definition read_records :: "string \<Rightarrow> (row list) action" where
  "read_records csv_path w = (parse_csv_to_records (csv_files w) csv_path, w)"

text \<open>A list comprehension over a function that may raise: the first exception ends it.\<close>

fun map_res :: "('a \<Rightarrow> py_error + 'b) \<Rightarrow> 'a list \<Rightarrow> py_error + 'b list" where
  "map_res f [] = Inr []"
| "map_res f (x # xs) =
     bind_res (f x) (\<lambda>y. bind_res (map_res f xs) (\<lambda>ys. Inr (y # ys)))"

definition pure_res :: "py_error + 'a \<Rightarrow> 'a action" where
  "pure_res r w = (r, w)"

text \<open>\<^verbatim>\<open>open(path, "w")\<close> replaces what the file held.\<close>

definition write_json :: "string \<Rightarrow> entity list \<Rightarrow> unit action" where
  "write_json path entities w =
     (Inr (), w\<lparr>json_files := (json_files w)(path \<mapsto> json_dumps entities)\<rparr>)"

definition print :: "message \<Rightarrow> unit action" where
  "print m w = (Inr (), w\<lparr>stdout := stdout w @ [m]\<rparr>)"

text \<open>
  One of the three blocks of \<^verbatim>\<open>main\<close>: read the rows, transform each, write the
  collection, print the count. The blocks differ in the transformer and the names only.
\<close>

definition convert ::
    "(row \<Rightarrow> py_error + entity) \<Rightarrow> string \<Rightarrow> string \<Rightarrow> string \<Rightarrow> unit action" where
  "convert transform csv_name json_name label =
     bind_act (read_records (path_join CSV_DIR csv_name)) (\<lambda>records.
     bind_act (pure_res (map_res transform records)) (\<lambda>entities.
     bind_act (write_json (path_join OUTPUT_DIR json_name) entities) (\<lambda>_.
     print (Parsed (length entities) label (''src/data/'' @ json_name)))))"

definition convert_pilots :: "unit action" where
  "convert_pilots = convert transform_pilot ''pilot_roster.csv'' ''pilots.json'' ''pilots''"

definition convert_drones :: "unit action" where
  "convert_drones = convert transform_drone ''drone_fleet.csv'' ''drones.json'' ''drones''"

definition convert_missions :: "unit action" where
  "convert_missions = convert transform_mission ''missions.csv'' ''missions.json'' ''missions''"

definition main :: "unit action" where
  "main =
     bind_act convert_pilots (\<lambda>_.
     bind_act convert_drones (\<lambda>_.
     bind_act convert_missions (\<lambda>_.
     print AllParsed)))"

subsection \<open>Reading a document back\<close>















subsection \<open>Notions the statements use\<close>

text \<open>
  The texts \<^verbatim>\<open>int\<close> accepts once the surrounding whitespace is gone, as the language
  reference words them: an optional sign, then decimal digits with single underscores
  allowed between digits.
\<close>

definition valid_int_text :: "string \<Rightarrow> bool" where
  "valid_int_text t =
     (let body = (case t of
                    [] \<Rightarrow> t
                  | c # cs \<Rightarrow> if c = CHR ''+'' \<or> c = CHR ''-'' then cs else t)
      in body \<noteq> [] \<and>
         list_all (\<lambda>c. isdigit c \<or> c = CHR ''_'') body \<and>
         hd body \<noteq> CHR ''_'' \<and> last body \<noteq> CHR ''_'' \<and>
         list_all (\<lambda>(a, b). \<not> (a = CHR ''_'' \<and> b = CHR ''_'')) (zip body (tl body)))"

text \<open>The keys of the three entities, in the order of the dict displays.\<close>

definition pilot_keys :: "string list" where
  "pilot_keys = [''pilot_id'', ''name'', ''skills'', ''certifications'', ''location'',
                 ''status'', ''current_assignment'', ''available_from'', ''daily_rate_inr'']"

definition drone_keys :: "string list" where
  "drone_keys = [''drone_id'', ''model'', ''capabilities'', ''status'', ''location'',
                 ''current_assignment'', ''maintenance_due'', ''weather_resistance'']"

definition mission_keys :: "string list" where
  "mission_keys = [''project_id'', ''client'', ''location'', ''required_skills'',
                   ''required_certs'', ''start_date'', ''end_date'', ''priority'',
                   ''mission_budget_inr'', ''weather_forecast'']"

definition normalised :: "row \<Rightarrow> string list \<Rightarrow> string list \<Rightarrow> string list \<Rightarrow> entity \<Rightarrow> bool" where
  "normalised raw strs lsts ints e =
     ((\<forall>k\<in>set strs. \<exists>v. dict_get raw k [] = Str v \<and> map_of e k = Some (StrV (py_strip v))) \<and>
      (\<forall>k\<in>set lsts. \<exists>xs. map_of e k = Some (ListV xs) \<and> [] \<notin> set xs) \<and>
      (\<forall>k\<in>set ints. \<exists>n. map_of e k = Some (IntV n) \<and> (map_of raw (Some k) = None \<longrightarrow> n = 0)))"

text \<open>
  A row the reader leaves out when the field names are distinct: it has no more cells than
  there are field names, and every cell is empty. A blank line is such a row.
\<close>

definition blank_row :: "string list \<Rightarrow> string list \<Rightarrow> bool" where
  "blank_row fieldnames r = (length r \<le> length fieldnames \<and> list_all (\<lambda>c. c = []) r)"

text \<open>
  What one block of \<^verbatim>\<open>main\<close> computes from the input files, and the world after
  it has written its document and printed its line.
\<close>

definition conversion ::
    "(row \<Rightarrow> py_error + entity) \<Rightarrow> string \<Rightarrow> (string \<rightharpoonup> string list list) \<Rightarrow>
       py_error + entity list" where
  "conversion transform csv_name files =
     bind_res (parse_csv_to_records files (path_join CSV_DIR csv_name)) (map_res transform)"

definition written :: "string \<Rightarrow> string \<Rightarrow> entity list \<Rightarrow> world \<Rightarrow> world" where
  "written json_name label entities w =
     w\<lparr>json_files := (json_files w)(path_join OUTPUT_DIR json_name \<mapsto> json_dumps entities),
       stdout := stdout w @ [Parsed (length entities) label (''src/data/'' @ json_name)]\<rparr>"

text \<open>The run of \<^verbatim>\<open>main\<close> as a function of the input files.\<close>

definition outcome :: "(string \<rightharpoonup> string list list) \<Rightarrow> world \<Rightarrow> (py_error + unit) \<times> world" where
  "outcome files w =
     (case conversion transform_pilot ''pilot_roster.csv'' files of
        Inl e \<Rightarrow> (Inl e, w)
      | Inr pilots \<Rightarrow>
          (case conversion transform_drone ''drone_fleet.csv'' files of
             Inl e \<Rightarrow> (Inl e, written ''pilots.json'' ''pilots'' pilots w)
           | Inr drones \<Rightarrow>
               (case conversion transform_mission ''missions.csv'' files of
                  Inl e \<Rightarrow>
                    (Inl e, written ''drones.json'' ''drones'' drones
                              (written ''pilots.json'' ''pilots'' pilots w))
                | Inr missions \<Rightarrow>
                    (Inr (),
                     (written ''missions.json'' ''missions'' missions
                        (written ''drones.json'' ''drones'' drones
                           (written ''pilots.json'' ''pilots'' pilots w)))
                     \<lparr>stdout :=
                        stdout (written ''missions.json'' ''missions'' missions
                          (written ''drones.json'' ''drones'' drones
                             (written ''pilots.json'' ''pilots'' pilots w))) @ [AllParsed]\<rparr>))))"

text \<open>The text a row of strings holds under a key: the empty string when the key is absent.\<close>

definition cell :: "(string \<times> string) list \<Rightarrow> string \<Rightarrow> string" where
  "cell kvs k = (case map_of kvs k of None \<Rightarrow> [] | Some v \<Rightarrow> v)"

section \<open>Properties\<close>

subsection \<open>Exceptions and string built-ins\<close>

lemma bind_res_Inr_iff: "bind_res m f = Inr y \<longleftrightarrow> (\<exists>v. m = Inr v \<and> f v = Inr y)"
  by (cases m) auto

lemma bind_res_Inl_iff: "bind_res m f = Inl e \<longleftrightarrow> m = Inl e \<or> (\<exists>v. m = Inr v \<and> f v = Inl e)"
  by (cases m) auto

lemma py_split_nonempty: "py_split sep s \<noteq> []"
  by (induction s) (auto split: list.splits)

lemma join_py_split: "join [sep] (py_split sep s) = s"
proof (induction s)
  case Nil then show ?case by simp
next
  case (Cons c cs)
  obtain p ps where e: "py_split sep cs = p # ps"
    using py_split_nonempty[of sep cs] by (cases "py_split sep cs") auto
  show ?case
  proof (cases "c = sep")
    case True
    with Cons e show ?thesis by simp
  next
    case False
    with Cons e show ?thesis by (cases ps) auto
  qed
qed

lemma py_split_no_sep: "p \<in> set (py_split sep s) \<Longrightarrow> sep \<notin> set p"
  by (induction s arbitrary: p) (auto split: if_splits list.splits)

lemma py_split_join: "ps \<noteq> [] \<Longrightarrow> \<forall>p\<in>set ps. sep \<notin> set p \<Longrightarrow> py_split sep (join [sep] ps) = ps"
proof (induction ps rule: induct_list012)
  case 1 then show ?case by simp
next
  case (2 x)
  then have "sep \<notin> set x" by simp
  then have "py_split sep x = [x]" by (induction x) auto
  then show ?case by simp
next
  case (3 x y ys)
  then have ih: "py_split sep (join [sep] (y # ys)) = y # ys" by simp
  from 3 have "sep \<notin> set x" by simp
  then have "py_split sep (x @ sep # join [sep] (y # ys)) = x # y # ys"
    using ih by (induction x) auto
  then show ?case by simp
qed

lemma scan_digits_iff:
  "scan_digits prev b \<longleftrightarrow>
     list_all (\<lambda>c. isdigit c \<or> c = CHR ''_'') b \<and> last (prev # b) \<noteq> CHR ''_'' \<and>
     list_all (\<lambda>(a, b). \<not> (a = CHR ''_'' \<and> b = CHR ''_'')) (zip (prev # b) b)"
proof (induction b arbitrary: prev)
  case Nil then show ?case by simp
next
  case (Cons c cs)
  show ?case
    unfolding scan_digits.simps Cons.IH by (cases "c = CHR ''_''"; cases "isdigit c"; simp; blast)
qed

lemma int_literal_ok_iff:
  "int_literal_ok b \<longleftrightarrow> b \<noteq> [] \<and> list_all (\<lambda>c. isdigit c \<or> c = CHR ''_'') b \<and>
         hd b \<noteq> CHR ''_'' \<and> last b \<noteq> CHR ''_'' \<and>
         list_all (\<lambda>(a, b). \<not> (a = CHR ''_'' \<and> b = CHR ''_'')) (zip b (tl b))"
proof (cases b)
  case Nil then show ?thesis by (simp add: int_literal_ok_def)
next
  case (Cons c cs)
  then show ?thesis
    by (simp add: int_literal_ok_def scan_digits_iff; blast)
qed

lemma rev_split_while: "xs = rev (dropWhile P (rev xs)) @ rev (takeWhile P (rev xs))"
proof -
  have "rev (rev xs) = rev (takeWhile P (rev xs) @ dropWhile P (rev xs))"
    by (simp only: takeWhile_dropWhile_id)
  then show ?thesis by (simp only: rev_rev_ident rev_append)
qed

lemma py_strip_decomp:
  "v = takeWhile isspace v @ py_strip v @ rev (takeWhile isspace (rev (dropWhile isspace v)))"
proof -
  have "dropWhile isspace v = py_strip v @ rev (takeWhile isspace (rev (dropWhile isspace v)))"
    unfolding py_strip_def by (rule rev_split_while)
  moreover have "v = takeWhile isspace v @ dropWhile isspace v" by simp
  ultimately show ?thesis by simp
qed

lemma py_strip_last: "py_strip v \<noteq> [] \<Longrightarrow> \<not> isspace (last (py_strip v))"
  by (simp add: py_strip_def last_rev hd_dropWhile)

lemma py_strip_hd: "py_strip v \<noteq> [] \<Longrightarrow> \<not> isspace (hd (py_strip v))"
proof -
  assume ne: "py_strip v \<noteq> []"
  let ?d = "dropWhile isspace v"
  have "?d = py_strip v @ rev (takeWhile isspace (rev ?d))"
    unfolding py_strip_def by (rule rev_split_while)
  then have "hd ?d = hd (py_strip v)" using ne by (metis hd_append2)
  moreover have "?d \<noteq> []"
  proof
    assume "?d = []"
    then have "py_strip v = []" unfolding py_strip_def by (simp only: rev.simps dropWhile.simps)
    with ne show False by simp
  qed
  ultimately show ?thesis using hd_dropWhile[of isspace v] by simp
qed

lemma py_strip_fixed:
  assumes "s = [] \<or> (\<not> isspace (hd s) \<and> \<not> isspace (last s))"
  shows "py_strip s = s"
proof (cases s)
  case Nil then show ?thesis by (simp add: py_strip_def)
next
  case (Cons c cs)
  with assms have h: "\<not> isspace c" and l: "\<not> isspace (last s)" by auto
  from h Cons have 1: "dropWhile isspace s = s" by simp
  from Cons have ne: "rev s \<noteq> []" by simp
  from Cons l have "\<not> isspace (hd (rev s))" using hd_rev[of s] by simp
  with ne have "dropWhile isspace (rev s) = rev s" by (cases "rev s") auto
  with 1 show ?thesis by (simp add: py_strip_def)
qed

lemma py_strip_idem: "py_strip (py_strip s) = py_strip s"
  using py_strip_fixed[of "py_strip s"] py_strip_hd[of s] py_strip_last[of s] by blast

subsection \<open>Fields and transformers\<close>

lemma str_field_Inr: "str_field raw k = Inr s \<Longrightarrow> \<exists>v. dict_get raw k [] = Str v \<and> s = py_strip v"
  by (cases "dict_get raw k []") (auto simp: str_field_def)

lemma list_field_Inr: "list_field raw k = Inr xs \<Longrightarrow> [] \<notin> set xs"
  by (cases "dict_get raw k []") (auto simp: list_field_def)

lemma py_int_zero: "py_int ''0'' = Inr 0"
  by (simp add: py_int_def py_strip_def isspace_def int_literal_ok_def isdigit_def
        decimal_value_def digit_value_def int_max_str_digits_def)

lemma int_field_absent: "map_of raw (Some k) = None \<Longrightarrow> int_field raw k = Inr 0"
  using py_int_zero by (simp add: int_field_def dict_get_def py_strip_def isspace_def)

lemma transform_pilot_InrD:
  assumes "transform_pilot raw = Inr e"
  shows "\<exists>a b c d f g h i j.
           str_field raw ''pilot_id'' = Inr a \<and> str_field raw ''name'' = Inr b \<and>
           list_field raw ''skills'' = Inr c \<and> list_field raw ''certifications'' = Inr d \<and>
           str_field raw ''location'' = Inr f \<and> str_field raw ''status'' = Inr g \<and>
           str_field raw ''current_assignment'' = Inr h \<and>
           str_field raw ''available_from'' = Inr i \<and>
           int_field raw ''daily_rate_inr'' = Inr j \<and>
           e = [(''pilot_id'', StrV a), (''name'', StrV b), (''skills'', ListV c),
                (''certifications'', ListV d), (''location'', StrV f), (''status'', StrV g),
                (''current_assignment'', StrV h), (''available_from'', StrV i),
                (''daily_rate_inr'', IntV j)]"
  using assms unfolding transform_pilot_def bind_res_Inr_iff by blast

lemma transform_pilot_normalised:
  assumes "transform_pilot raw = Inr e"
  shows "normalised raw [''pilot_id'', ''name'', ''location'', ''status'', ''current_assignment'', ''available_from'']
            [''skills'', ''certifications''] [''daily_rate_inr''] e"
proof -
  from transform_pilot_InrD[OF assms] obtain a b c d f g h i j where
    1: "str_field raw ''pilot_id'' = Inr a" "str_field raw ''name'' = Inr b"
       "str_field raw ''location'' = Inr f" "str_field raw ''status'' = Inr g"
       "str_field raw ''current_assignment'' = Inr h" "str_field raw ''available_from'' = Inr i"
    and 2: "list_field raw ''skills'' = Inr c" "list_field raw ''certifications'' = Inr d"
    and 3: "int_field raw ''daily_rate_inr'' = Inr j"
    and e: "e = [(''pilot_id'', StrV a), (''name'', StrV b), (''skills'', ListV c),
                (''certifications'', ListV d), (''location'', StrV f), (''status'', StrV g),
                (''current_assignment'', StrV h), (''available_from'', StrV i),
                (''daily_rate_inr'', IntV j)]"
    by blast
  show ?thesis
    unfolding normalised_def e
    using 1[THEN str_field_Inr] 2[THEN list_field_Inr] 3 int_field_absent[of raw "''daily_rate_inr''"]
    by simp
qed

lemma transform_drone_InrD:
  assumes "transform_drone raw = Inr e"
  shows "\<exists>a b c d f g h i.
           str_field raw ''drone_id'' = Inr a \<and> str_field raw ''model'' = Inr b \<and>
           list_field raw ''capabilities'' = Inr c \<and> str_field raw ''status'' = Inr d \<and>
           str_field raw ''location'' = Inr f \<and>
           str_field raw ''current_assignment'' = Inr g \<and>
           str_field raw ''maintenance_due'' = Inr h \<and>
           str_field raw ''weather_resistance'' = Inr i \<and>
           e = [(''drone_id'', StrV a), (''model'', StrV b), (''capabilities'', ListV c),
                (''status'', StrV d), (''location'', StrV f),
                (''current_assignment'', StrV g), (''maintenance_due'', StrV h),
                (''weather_resistance'', StrV i)]"
  using assms unfolding transform_drone_def bind_res_Inr_iff by blast

lemma transform_mission_InrD:
  assumes "transform_mission raw = Inr e"
  shows "\<exists>a b c d f g h i j l.
           str_field raw ''project_id'' = Inr a \<and> str_field raw ''client'' = Inr b \<and>
           str_field raw ''location'' = Inr c \<and>
           list_field raw ''required_skills'' = Inr d \<and>
           list_field raw ''required_certs'' = Inr f \<and>
           str_field raw ''start_date'' = Inr g \<and> str_field raw ''end_date'' = Inr h \<and>
           str_field raw ''priority'' = Inr i \<and>
           int_field raw ''mission_budget_inr'' = Inr j \<and>
           str_field raw ''weather_forecast'' = Inr l \<and>
           e = [(''project_id'', StrV a), (''client'', StrV b), (''location'', StrV c),
                (''required_skills'', ListV d), (''required_certs'', ListV f),
                (''start_date'', StrV g), (''end_date'', StrV h), (''priority'', StrV i),
                (''mission_budget_inr'', IntV j), (''weather_forecast'', StrV l)]"
  using assms unfolding transform_mission_def bind_res_Inr_iff by blast

lemma transform_drone_normalised:
  assumes "transform_drone raw = Inr e"
  shows "normalised raw [''drone_id'', ''model'', ''status'', ''location'', ''current_assignment'',
            ''maintenance_due'', ''weather_resistance''] [''capabilities''] [] e"
proof -
  from transform_drone_InrD[OF assms] obtain a b c d f g h i where
    1: "str_field raw ''drone_id'' = Inr a" "str_field raw ''model'' = Inr b"
       "str_field raw ''status'' = Inr d" "str_field raw ''location'' = Inr f"
       "str_field raw ''current_assignment'' = Inr g" "str_field raw ''maintenance_due'' = Inr h"
       "str_field raw ''weather_resistance'' = Inr i"
    and 2: "list_field raw ''capabilities'' = Inr c"
    and e: "e = [(''drone_id'', StrV a), (''model'', StrV b), (''capabilities'', ListV c),
                (''status'', StrV d), (''location'', StrV f),
                (''current_assignment'', StrV g), (''maintenance_due'', StrV h),
                (''weather_resistance'', StrV i)]"
    by blast
  show ?thesis
    unfolding normalised_def e
    using 1[THEN str_field_Inr] 2[THEN list_field_Inr]
    by simp
qed

lemma transform_mission_normalised:
  assumes "transform_mission raw = Inr e"
  shows "normalised raw [''project_id'', ''client'', ''location'', ''start_date'', ''end_date'',
            ''priority'', ''weather_forecast''] [''required_skills'', ''required_certs'']
            [''mission_budget_inr''] e"
proof -
  from transform_mission_InrD[OF assms] obtain a b c d f g h i j l where
    1: "str_field raw ''project_id'' = Inr a" "str_field raw ''client'' = Inr b"
       "str_field raw ''location'' = Inr c" "str_field raw ''start_date'' = Inr g"
       "str_field raw ''end_date'' = Inr h" "str_field raw ''priority'' = Inr i"
       "str_field raw ''weather_forecast'' = Inr l"
    and 2: "list_field raw ''required_skills'' = Inr d" "list_field raw ''required_certs'' = Inr f"
    and 3: "int_field raw ''mission_budget_inr'' = Inr j"
    and e: "e = [(''project_id'', StrV a), (''client'', StrV b), (''location'', StrV c),
                (''required_skills'', ListV d), (''required_certs'', ListV f),
                (''start_date'', StrV g), (''end_date'', StrV h), (''priority'', StrV i),
                (''mission_budget_inr'', IntV j), (''weather_forecast'', StrV l)]"
    by blast
  show ?thesis
    unfolding normalised_def e
    using 1[THEN str_field_Inr] 2[THEN list_field_Inr] 3 int_field_absent[of raw "''mission_budget_inr''"]
    by simp
qed

lemma map_of_str_row: "map_of (str_row kvs) (Some k) = map_option Str (map_of kvs k)"
  by (induction kvs) (auto simp: str_row_def)

lemma dict_get_str_row:
  "dict_get (str_row kvs) k d = Str (case map_of kvs k of None \<Rightarrow> d | Some v \<Rightarrow> v)"
  by (simp add: dict_get_def map_of_str_row split: option.splits)

lemma str_field_str_row: "\<exists>s. str_field (str_row kvs) k = Inr s"
  by (simp add: str_field_def dict_get_str_row)

lemma list_field_str_row: "\<exists>xs. list_field (str_row kvs) k = Inr xs"
  by (simp add: list_field_def dict_get_str_row)

lemma int_field_str_row: "int_field (str_row kvs) k = Inl e \<Longrightarrow> e = ValueError"
  by (auto simp add: int_field_def dict_get_str_row py_int_def Let_def split: if_splits prod.splits)

lemma transform_drone_total: "\<exists>e. transform_drone (str_row kvs) = Inr e"
proof -
  obtain a where a: "str_field (str_row kvs) ''drone_id'' = Inr a" using str_field_str_row by blast
  obtain b where b: "str_field (str_row kvs) ''model'' = Inr b" using str_field_str_row by blast
  obtain c where c: "list_field (str_row kvs) ''capabilities'' = Inr c" using list_field_str_row by blast
  obtain d where d: "str_field (str_row kvs) ''status'' = Inr d" using str_field_str_row by blast
  obtain f where f: "str_field (str_row kvs) ''location'' = Inr f" using str_field_str_row by blast
  obtain g where g: "str_field (str_row kvs) ''current_assignment'' = Inr g" using str_field_str_row by blast
  obtain h where h: "str_field (str_row kvs) ''maintenance_due'' = Inr h" using str_field_str_row by blast
  obtain i where i: "str_field (str_row kvs) ''weather_resistance'' = Inr i" using str_field_str_row by blast
  show ?thesis unfolding transform_drone_def by (simp add: a b c d f g h i)
qed

lemmas eval_defs = transform_pilot_def transform_drone_def transform_mission_def str_row_def str_field_def list_field_def
  int_field_def dict_get_def py_strip_def isspace_def py_int_def int_literal_ok_def isdigit_def
  decimal_value_def digit_value_def int_max_str_digits_def

lemma list_field_Str:
  "dict_get raw k [] = Str v \<Longrightarrow>
     list_field raw k = Inr (filter (\<lambda>p. p \<noteq> []) (map py_strip (py_split (CHR '','') v)))"
  by (simp add: list_field_def filter_map comp_def)

lemma py_int_fixed:
  assumes st: "py_strip t = t"
  shows "py_int t =
     (if valid_int_text t \<and> length (filter isdigit t) \<le> int_max_str_digits
      then Inr ((if hd t = CHR ''-'' then - 1 else 1) * decimal_value t)
      else Inl ValueError)"
proof -
  have pi: "py_int t =
     (case (case t of
               [] \<Rightarrow> (1, t)
             | c # cs \<Rightarrow>
                 if c = CHR ''+'' then (1, cs)
                 else if c = CHR ''-'' then (- 1, cs)
                 else (1, t)) of
        (sign, body) \<Rightarrow>
          if int_literal_ok body then
            (if length (filter isdigit body) > int_max_str_digits then Inl ValueError
             else Inr (sign * decimal_value body))
          else Inl ValueError)"
    by (simp add: py_int_def st)
  have sgn: "\<not> isdigit (CHR ''+'')" "\<not> isdigit (CHR ''-'')" by (simp_all add: isdigit_def)
  show ?thesis
  proof (cases t)
    case Nil
    then show ?thesis
      unfolding pi by (simp add: valid_int_text_def int_literal_ok_def)
  next
    case (Cons c cs)
    consider "c = CHR ''+''" | "c = CHR ''-''" | "c \<noteq> CHR ''+'' \<and> c \<noteq> CHR ''-''" by blast
    then show ?thesis
    proof cases
      case 1
      with Cons sgn show ?thesis
        unfolding pi
        by (simp add: valid_int_text_def int_literal_ok_iff decimal_value_def not_less)
    next
      case 2
      with Cons sgn show ?thesis
        unfolding pi
        by (simp add: valid_int_text_def int_literal_ok_iff decimal_value_def not_less)
    next
      case 3
      with Cons show ?thesis
        unfolding pi by (simp add: valid_int_text_def int_literal_ok_iff not_less; blast)
    qed
  qed
qed

lemma py_int_stripped:
  "py_int (py_strip v) =
     (if valid_int_text (py_strip v) \<and>
         length (filter isdigit (py_strip v)) \<le> int_max_str_digits
      then Inr ((if hd (py_strip v) = CHR ''-'' then - 1 else 1) * decimal_value (py_strip v))
      else Inl ValueError)"
  by (rule py_int_fixed) (rule py_strip_idem)

lemma int_field_Str:
  "dict_get raw k ''0'' = Str v \<Longrightarrow> int_field raw k = py_int (py_strip v)"
  by (simp add: int_field_def)

lemma transform_pilot_str_row:
  "(transform_pilot (str_row kvs) = Inl e) = (int_field (str_row kvs) ''daily_rate_inr'' = Inl e)"
proof -
  let ?r = "str_row kvs"
  obtain a where a: "str_field ?r ''pilot_id'' = Inr a" using str_field_str_row by blast
  obtain b where b: "str_field ?r ''name'' = Inr b" using str_field_str_row by blast
  obtain c where c: "list_field ?r ''skills'' = Inr c" using list_field_str_row by blast
  obtain d where d: "list_field ?r ''certifications'' = Inr d" using list_field_str_row by blast
  obtain f where f: "str_field ?r ''location'' = Inr f" using str_field_str_row by blast
  obtain g where g: "str_field ?r ''status'' = Inr g" using str_field_str_row by blast
  obtain h where h: "str_field ?r ''current_assignment'' = Inr h" using str_field_str_row by blast
  obtain i where i: "str_field ?r ''available_from'' = Inr i" using str_field_str_row by blast
  show ?thesis
    unfolding transform_pilot_def
    by (cases "int_field ?r ''daily_rate_inr''") (simp_all add: a b c d f g h i)
qed

lemma transform_mission_str_row:
  "(transform_mission (str_row kvs) = Inl e) = (int_field (str_row kvs) ''mission_budget_inr'' = Inl e)"
proof -
  let ?r = "str_row kvs"
  obtain a where a: "str_field ?r ''project_id'' = Inr a" using str_field_str_row by blast
  obtain b where b: "str_field ?r ''client'' = Inr b" using str_field_str_row by blast
  obtain c where c: "str_field ?r ''location'' = Inr c" using str_field_str_row by blast
  obtain d where d: "list_field ?r ''required_skills'' = Inr d" using list_field_str_row by blast
  obtain f where f: "list_field ?r ''required_certs'' = Inr f" using list_field_str_row by blast
  obtain g where g: "str_field ?r ''start_date'' = Inr g" using str_field_str_row by blast
  obtain h where h: "str_field ?r ''end_date'' = Inr h" using str_field_str_row by blast
  obtain i where i: "str_field ?r ''priority'' = Inr i" using str_field_str_row by blast
  obtain l where l: "str_field ?r ''weather_forecast'' = Inr l" using str_field_str_row by blast
  show ?thesis
    unfolding transform_mission_def
    by (cases "int_field ?r ''mission_budget_inr''") (simp_all add: a b c d f g h i l)
qed

lemma transform_pilot_int_fails:
  "int_field raw ''daily_rate_inr'' = Inl e \<Longrightarrow> \<exists>e'. transform_pilot raw = Inl e'"
proof (cases "transform_pilot raw")
  case (Inl e') then show ?thesis by blast
next
  case (Inr x)
  assume "int_field raw ''daily_rate_inr'' = Inl e"
  with transform_pilot_InrD[OF Inr] show ?thesis by auto
qed

lemma transform_mission_int_fails:
  "int_field raw ''mission_budget_inr'' = Inl e \<Longrightarrow> \<exists>e'. transform_mission raw = Inl e'"
proof (cases "transform_mission raw")
  case (Inl e') then show ?thesis by blast
next
  case (Inr x)
  assume "int_field raw ''mission_budget_inr'' = Inl e"
  with transform_mission_InrD[OF Inr] show ?thesis by auto
qed








lemma transform_keys:
  "transform_pilot raw = Inr e \<Longrightarrow> map fst e = pilot_keys"
  "transform_drone raw = Inr e \<Longrightarrow> map fst e = drone_keys"
  "transform_mission raw = Inr e \<Longrightarrow> map fst e = mission_keys"
  using transform_pilot_InrD[of raw e] transform_drone_InrD[of raw e]
    transform_mission_InrD[of raw e]
  by (auto simp: pilot_keys_def drone_keys_def mission_keys_def)

lemma transform_list_fields:
  "transform_pilot raw = Inr e \<Longrightarrow>
     \<forall>k\<in>set [''skills'', ''certifications''].
       \<exists>xs. list_field raw k = Inr xs \<and> map_of e k = Some (ListV xs)"
  "transform_drone raw = Inr e \<Longrightarrow>
     \<forall>k\<in>set [''capabilities''].
       \<exists>xs. list_field raw k = Inr xs \<and> map_of e k = Some (ListV xs)"
  "transform_mission raw = Inr e \<Longrightarrow>
     \<forall>k\<in>set [''required_skills'', ''required_certs''].
       \<exists>xs. list_field raw k = Inr xs \<and> map_of e k = Some (ListV xs)"
  using transform_pilot_InrD[of raw e] transform_drone_InrD[of raw e]
    transform_mission_InrD[of raw e]
  by auto

subsection \<open>The row reader\<close>

lemma update_absent: "k \<notin> fst ` set al \<Longrightarrow> AList.update k v al = al @ [(k, v)]"
  by (induction al) auto

lemma foldl_update_distinct:
  "distinct (map fst (d @ kvs)) \<Longrightarrow>
     foldl (\<lambda>d (k, v). AList.update k v d) d kvs = d @ kvs"
proof (induction kvs arbitrary: d)
  case Nil then show ?case by simp
next
  case (Cons kv kvs)
  obtain k v where kv: "kv = (k, v)" by (cases kv)
  from Cons.prems kv have "k \<notin> fst ` set d" by auto
  then have u: "AList.update k v d = d @ [(k, v)]" by (rule update_absent)
  from Cons.prems kv have "distinct (map fst ((d @ [(k, v)]) @ kvs))" by simp
  from Cons.IH[OF this] show ?case by (simp add: kv u)
qed

lemma dict_of_distinct: "distinct (map fst kvs) \<Longrightarrow> dict_of kvs = kvs"
  using foldl_update_distinct[of "[]" kvs] by (simp add: dict_of_def)

lemma foldl_restval_distinct:
  "distinct (map fst d @ map Some ks) \<Longrightarrow>
     foldl (\<lambda>d key. AList.update (Some key) PyNone d) d ks
       = d @ map (\<lambda>k. (Some k, PyNone)) ks"
proof (induction ks arbitrary: d)
  case Nil then show ?case by simp
next
  case (Cons k ks)
  from Cons.prems have "Some k \<notin> fst ` set d" by auto
  then have u: "AList.update (Some k) PyNone d = d @ [(Some k, PyNone)]" by (rule update_absent)
  from Cons.prems have "distinct (map fst (d @ [(Some k, PyNone)]) @ map Some ks)" by auto
  from Cons.IH[OF this] show ?case by (simp add: u)
qed

lemma zip_header_keys:
  "map fst (zip (map Some fieldnames) (map Str r)) = map Some (take (length r) fieldnames)"
  by (simp add: map_fst_zip_take take_map min_def)

lemma zip_header_values:
  "map snd (zip (map Some fieldnames) (map Str r)) = map Str (take (length fieldnames) r)"
  by (simp add: map_snd_zip_take take_map min_def)

lemma py_any_Str: "py_any (map Str cs) \<longleftrightarrow> (\<exists>c\<in>set cs. c \<noteq> [])"
  by (induction cs) (auto simp: py_any_def)

lemma py_any_append: "py_any (xs @ ys) \<longleftrightarrow> py_any xs \<or> py_any ys"
  by (auto simp: py_any_def list_ex_iff)

lemma py_any_restvals: "\<not> py_any (map snd (map (\<lambda>k. (Some k, PyNone)) ks))"
  by (induction ks) (auto simp: py_any_def)

lemma dict_reader_row_any:
  assumes dist: "distinct fieldnames"
  shows "py_any (map snd (dict_reader_row fieldnames r)) \<longleftrightarrow> \<not> blank_row fieldnames r"
proof -
  let ?z = "zip (map Some fieldnames) (map Str r)"
  have dk: "distinct (map fst ?z)"
    using dist by (simp add: zip_header_keys distinct_map distinct_take inj_on_def)
  then have d: "dict_of ?z = ?z" by (rule dict_of_distinct)
  consider "length fieldnames < length r" | "length fieldnames > length r"
    | "length fieldnames = length r" by linarith
  then show ?thesis
  proof cases
    case 1
    have "None \<notin> fst ` set ?z"
      using zip_header_keys[of fieldnames r] by (metis (no_types, lifting) imageE list.set_map option.distinct(1))
    then have "AList.update None (StrList (drop (length fieldnames) r)) ?z
                 = ?z @ [(None, StrList (drop (length fieldnames) r))]"
      by (rule update_absent)
    with 1 d show ?thesis
      by (simp add: dict_reader_row_def blank_row_def py_any_append) (simp add: py_any_def)
  next
    case 2
    have "distinct (map fst ?z @ map Some (drop (length r) fieldnames))"
      using dist by (simp add: zip_header_keys flip: map_append) (simp add: distinct_map inj_on_def)
    from foldl_restval_distinct[OF this] 2 d show ?thesis
      by (simp add: dict_reader_row_def blank_row_def py_any_append py_any_restvals
            zip_header_values py_any_Str list_all_iff del: map_map)
  next
    case 3
    with d show ?thesis
      by (simp add: dict_reader_row_def blank_row_def zip_header_values py_any_Str list_all_iff)
  qed
qed

lemma collect_records_filter:
  "collect_records records rows = records @ filter (\<lambda>row. py_any (map snd row)) rows"
  by (induction rows arbitrary: records) auto

lemma length_filter_eq_iff: "length (filter P xs) = length xs \<longleftrightarrow> (\<forall>x\<in>set xs. P x)"
proof (induction xs)
  case Nil then show ?case by simp
next
  case (Cons x xs)
  have le: "length (filter P xs) \<le> length xs" by simp
  show ?case
  proof (cases "P x")
    case True
    with Cons show ?thesis by simp
  next
    case False
    from le have "length (filter P xs) \<noteq> Suc (length xs)" by linarith
    with False show ?thesis by simp
  qed
qed

lemma parse_csv_to_records_distinct:
  assumes "files p = Some (fieldnames # rest)" and "distinct fieldnames"
  shows "parse_csv_to_records files p
           = Inr (map (dict_reader_row fieldnames)
                   (filter (\<lambda>r. \<not> blank_row fieldnames r) rest))"
proof -
  have e: "(\<lambda>r. r \<noteq> [] \<and> \<not> blank_row fieldnames r) = (\<lambda>r. \<not> blank_row fieldnames r)"
    by (auto simp: blank_row_def)
  have "filter (\<lambda>row. py_any (map snd row))
          (map (dict_reader_row fieldnames) (filter (\<lambda>r. r \<noteq> []) rest))
        = map (dict_reader_row fieldnames)
            (filter (\<lambda>r. \<not> blank_row fieldnames r) (filter (\<lambda>r. r \<noteq> []) rest))"
    by (simp add: filter_map comp_def dict_reader_row_any[OF assms(2)])
  also have "\<dots> = map (dict_reader_row fieldnames)
            (filter (\<lambda>r. \<not> blank_row fieldnames r) rest)"
    by (simp add: e conj_commute)
  finally show ?thesis
    using assms(1) by (simp add: parse_csv_to_records_def dict_reader_def collect_records_filter)
qed

lemma parse_csv_to_records_bound:
  assumes "files p = Some (fieldnames # rest)" and "parse_csv_to_records files p = Inr out"
  shows "length out \<le> length rest"
proof -
  let ?rows = "map (dict_reader_row fieldnames) (filter (\<lambda>r. r \<noteq> []) rest)"
  from assms have out: "out = filter (\<lambda>row. py_any (map snd row)) ?rows"
    by (simp add: parse_csv_to_records_def dict_reader_def collect_records_filter)
  have "length out \<le> length ?rows" unfolding out by (rule length_filter_le)
  also have "\<dots> \<le> length rest" by simp
  finally show ?thesis .
qed

lemma parse_csv_to_records_rows:
  "(files p = None \<longrightarrow> parse_csv_to_records files p = Inl FileNotFoundError) \<and>
   (files p = Some [] \<longrightarrow> parse_csv_to_records files p = Inr []) \<and>
   (files p = Some (fieldnames # rest) \<longrightarrow>
      (\<exists>out. parse_csv_to_records files p = Inr out \<and> length out \<le> length rest)) \<and>
   (files p = Some (fieldnames # rest) \<and> distinct fieldnames \<longrightarrow>
      (\<exists>out. parse_csv_to_records files p = Inr out \<and>
         out = map (dict_reader_row fieldnames)
                 (filter (\<lambda>r. \<not> blank_row fieldnames r) rest) \<and>
         (length out = length rest) = (\<not> list_ex (blank_row fieldnames) rest)))"
proof -
  have "(length (filter (\<lambda>r. \<not> blank_row fieldnames r) rest) = length rest)
          = (\<not> list_ex (blank_row fieldnames) rest)"
    by (simp add: length_filter_eq_iff list_ex_iff)
  moreover have "files p = None \<longrightarrow> parse_csv_to_records files p = Inl FileNotFoundError"
    by (simp add: parse_csv_to_records_def)
  moreover have "files p = Some [] \<longrightarrow> parse_csv_to_records files p = Inr []"
    by (simp add: parse_csv_to_records_def dict_reader_def)
  moreover have "files p = Some (fieldnames # rest) \<longrightarrow>
      (\<exists>out. parse_csv_to_records files p = Inr out \<and> length out \<le> length rest)"
    using parse_csv_to_records_bound[of files p fieldnames rest]
    by (auto simp: parse_csv_to_records_def)
  ultimately show ?thesis
    using parse_csv_to_records_distinct[of files p fieldnames rest] by simp
qed

subsection \<open>The orchestrator\<close>

lemma convert_eq:
  "convert t c j l w =
     (case conversion t c (csv_files w) of
        Inl e \<Rightarrow> (Inl e, w)
      | Inr entities \<Rightarrow> (Inr (), written j l entities w))"
proof (cases "parse_csv_to_records (csv_files w) (path_join CSV_DIR c)")
  case (Inl e)
  then show ?thesis
    by (simp add: convert_def conversion_def bind_act_def read_records_def)
next
  case (Inr records)
  then show ?thesis
    by (cases "map_res t records")
       (simp_all add: convert_def conversion_def bind_act_def read_records_def pure_res_def
          write_json_def print_def written_def)
qed

lemma convert_fails: "fst (convert t c j l w) = Inl e \<Longrightarrow> convert t c j l w = (Inl e, w)"
  by (cases "conversion t c (csv_files w)") (simp_all add: convert_eq)

lemma convert_succeeds:
  assumes "convert t c j l w = (Inr (), w')"
  shows "\<exists>entities. conversion t c (csv_files w) = Inr entities \<and> w' = written j l entities w"
  using assms by (cases "conversion t c (csv_files w)") (simp_all add: convert_eq)

lemma written_frame:
  "csv_files (written j l entities w) = csv_files w"
  "json_files (written j l entities w)
     = (json_files w)(path_join OUTPUT_DIR j \<mapsto> json_dumps entities)"
  "stdout (written j l entities w) = stdout w @ [Parsed (length entities) l (''src/data/'' @ j)]"
  by (simp_all add: written_def)

lemma main_unfold:
  "main w =
     (case convert_pilots w of
        (Inl e, w1) \<Rightarrow> (Inl e, w1)
      | (Inr u, w1) \<Rightarrow>
          (case convert_drones w1 of
             (Inl e, w2) \<Rightarrow> (Inl e, w2)
           | (Inr u, w2) \<Rightarrow>
               (case convert_missions w2 of
                  (Inl e, w3) \<Rightarrow> (Inl e, w3)
                | (Inr u, w3) \<Rightarrow> (Inr (), w3\<lparr>stdout := stdout w3 @ [AllParsed]\<rparr>))))"
  by (simp add: main_def bind_act_def print_def split: prod.splits sum.splits)

lemmas reader_defs = parse_csv_to_records_def dict_reader_def dict_reader_row_def dict_of_def
  py_any_def

lemmas path_defs = path_join_def CSV_DIR_def OUTPUT_DIR_def

lemma main_outcome: "main w = outcome (csv_files w) w"
  unfolding main_unfold convert_pilots_def convert_drones_def convert_missions_def convert_eq
    outcome_def
  by (simp add: written_frame split: sum.splits)

lemma outcome_csv_files: "csv_files (snd (outcome files w)) = csv_files w"
  by (simp add: outcome_def written_def split: sum.splits)

lemma outcome_result: "fst (outcome files v) = fst (outcome files w)"
  by (simp add: outcome_def split: sum.splits)

lemma outcome_twice:
  "json_files (snd (outcome files (snd (outcome files w)))) = json_files (snd (outcome files w))"
  by (rule ext) (simp add: outcome_def written_def split: sum.splits)

lemma output_paths_distinct:
  "path_join OUTPUT_DIR ''pilots.json'' \<noteq> path_join OUTPUT_DIR ''drones.json''"
  "path_join OUTPUT_DIR ''pilots.json'' \<noteq> path_join OUTPUT_DIR ''missions.json''"
  "path_join OUTPUT_DIR ''drones.json'' \<noteq> path_join OUTPUT_DIR ''missions.json''"
  by (simp_all add: path_join_def)

lemma outcome_documents:
  assumes "fst (outcome files w) = Inr ()"
    and "name \<in> set [''pilots.json'', ''drones.json'', ''missions.json'']"
  shows "json_files (snd (outcome files v)) (path_join OUTPUT_DIR name)
           = json_files (snd (outcome files w)) (path_join OUTPUT_DIR name)"
  using assms output_paths_distinct
  by (auto simp: outcome_def written_def split: sum.splits)

subsection \<open>Integer fields\<close>

lemma transform_int_fields:
  "transform_pilot raw = Inr e \<Longrightarrow>
     \<exists>n. int_field raw ''daily_rate_inr'' = Inr n \<and>
         map_of e ''daily_rate_inr'' = Some (IntV n)"
  "transform_mission raw = Inr e \<Longrightarrow>
     \<exists>n. int_field raw ''mission_budget_inr'' = Inr n \<and>
         map_of e ''mission_budget_inr'' = Some (IntV n)"
  using transform_pilot_InrD[of raw e] transform_mission_InrD[of raw e]
  by auto

lemma int_field_cases:
  "(map_of raw (Some k) = None \<longrightarrow> int_field raw k = Inr 0) \<and>
   (dict_get raw k ''0'' = Str v \<longrightarrow> int_field raw k = py_int (py_strip v)) \<and>
   (dict_get raw k ''0'' = Str v \<and> \<not> valid_int_text (py_strip v) \<longrightarrow>
      int_field raw k = Inl ValueError) \<and>
   (dict_get raw k ''0'' = Str v \<and> valid_int_text (py_strip v) \<and>
    length (filter isdigit (py_strip v)) \<le> int_max_str_digits \<longrightarrow>
      int_field raw k =
        Inr ((if hd (py_strip v) = CHR ''-'' then - 1 else 1) * decimal_value (py_strip v))) \<and>
   (dict_get raw k ''0'' = Str v \<and> int_max_str_digits < length (filter isdigit (py_strip v))
      \<longrightarrow> int_field raw k = Inl ValueError) \<and>
   (transform_pilot raw = Inr e \<longrightarrow>
      (\<exists>n. int_field raw ''daily_rate_inr'' = Inr n \<and>
           map_of e ''daily_rate_inr'' = Some (IntV n))) \<and>
   (transform_mission raw = Inr e \<longrightarrow>
      (\<exists>n. int_field raw ''mission_budget_inr'' = Inr n \<and>
           map_of e ''mission_budget_inr'' = Some (IntV n))) \<and>
   (transform_pilot (str_row kvs) = Inl ValueError) =
      (int_field (str_row kvs) ''daily_rate_inr'' = Inl ValueError) \<and>
   (transform_mission (str_row kvs) = Inl ValueError) =
      (int_field (str_row kvs) ''mission_budget_inr'' = Inl ValueError)"
proof -
  have 1: "dict_get raw k ''0'' = Str v \<longrightarrow> int_field raw k = py_int (py_strip v)"
    by (simp add: int_field_Str)
  have 2: "dict_get raw k ''0'' = Str v \<and> \<not> valid_int_text (py_strip v) \<longrightarrow>
      int_field raw k = Inl ValueError"
    by (simp add: int_field_Str py_int_stripped)
  have 3: "dict_get raw k ''0'' = Str v \<and> valid_int_text (py_strip v) \<and>
    length (filter isdigit (py_strip v)) \<le> int_max_str_digits \<longrightarrow>
      int_field raw k =
        Inr ((if hd (py_strip v) = CHR ''-'' then - 1 else 1) * decimal_value (py_strip v))"
    by (simp add: int_field_Str py_int_stripped)
  have 4: "dict_get raw k ''0'' = Str v \<and>
      int_max_str_digits < length (filter isdigit (py_strip v))
      \<longrightarrow> int_field raw k = Inl ValueError"
    by (simp add: int_field_Str py_int_stripped)
  from 1 2 3 4 show ?thesis
    using int_field_absent[of raw k] transform_int_fields[of raw e]
      transform_pilot_str_row[of kvs ValueError] transform_mission_str_row[of kvs ValueError]
    by blast
qed

subsection \<open>Reading back what was written\<close>












lemma nat_repr_small: "n < 10 \<Longrightarrow> nat_repr n = [digit_char n]"
  by (subst nat_repr.simps) simp

lemma nat_repr_large:
  "\<not> n < 10 \<Longrightarrow> nat_repr n = nat_repr (n div 10) @ [digit_char (n mod 10)]"
  by (subst nat_repr.simps) simp






















lemma case_first_char:
  "s = c # cs \<Longrightarrow> c \<noteq> x \<Longrightarrow>
     (case s of [] \<Rightarrow> a | d # ds \<Rightarrow> if d = x then f ds else g (d # ds)) = g s"
  by simp


























subsection \<open>A parsed integer is written within the cap on digits\<close>

lemma digit_value_range: "isdigit c \<Longrightarrow> 0 \<le> digit_value c \<and> digit_value c \<le> 9"
  by (auto simp: isdigit_def digit_value_def)

lemma foldl_digits_bound:
  "list_all isdigit ds \<Longrightarrow>
     0 \<le> foldl (\<lambda>a c. 10 * a + digit_value c) 0 ds \<and>
     foldl (\<lambda>a c. 10 * a + digit_value c) 0 ds < 10 ^ length ds"
proof (induction ds rule: rev_induct)
  case Nil
  then show ?case by simp
next
  case (snoc d ds)
  then have ih: "0 \<le> foldl (\<lambda>a c. 10 * a + digit_value c) 0 ds"
    "foldl (\<lambda>a c. 10 * a + digit_value c) 0 ds < 10 ^ length ds"
    by simp_all
  from snoc.prems have "isdigit d" by simp
  then have d: "0 \<le> digit_value d" "digit_value d \<le> 9" using digit_value_range by blast+
  from ih(2) have "foldl (\<lambda>a c. 10 * a + digit_value c) 0 ds + 1 \<le> 10 ^ length ds" by simp
  then have "10 * (foldl (\<lambda>a c. 10 * a + digit_value c) 0 ds + 1) \<le> 10 * 10 ^ length ds"
    by simp
  with ih d show ?case by simp
qed

lemma decimal_value_bound:
  "0 \<le> decimal_value b \<and> decimal_value b < 10 ^ length (filter isdigit b)"
  unfolding decimal_value_def by (rule foldl_digits_bound) (simp add: list_all_iff)

lemma nat_repr_length: "0 < k \<Longrightarrow> n < 10 ^ k \<Longrightarrow> length (nat_repr n) \<le> k"
proof (induction n arbitrary: k rule: nat_repr.induct)
  case (1 n)
  show ?case
  proof (cases "n < 10")
    case True
    with 1(2) show ?thesis by (simp add: nat_repr_small)
  next
    case False
    from 1(2) obtain j where k: "k = Suc j" by (cases k) auto
    from False 1(3) k have j: "0 < j" by (cases j) auto
    from 1(3) k have "n div 10 < 10 ^ j" by (simp add: less_mult_imp_div_less mult.commute)
    from 1(1)[OF False j this] False k show ?thesis by (simp add: nat_repr_large)
  qed
qed

lemma py_int_within_cap:
  assumes "py_int s = Inr n"
  shows "length (nat_repr (nat \<bar>n\<bar>)) \<le> int_max_str_digits"
proof -
  define body where
    "body = (case py_strip s of
               [] \<Rightarrow> []
             | c # cs \<Rightarrow> if c = CHR ''+'' \<or> c = CHR ''-'' then cs else c # cs)"
  from assms have a: "\<bar>n\<bar> = \<bar>decimal_value body\<bar>"
    and cap: "length (filter isdigit body) \<le> int_max_str_digits"
    by (auto simp: py_int_def body_def Let_def not_less split: list.splits if_splits)
  from a decimal_value_bound[of body] have "\<bar>n\<bar> < 10 ^ length (filter isdigit body)" by simp
  also have "\<dots> \<le> 10 ^ int_max_str_digits" using cap by simp
  finally have "nat \<bar>n\<bar> < 10 ^ int_max_str_digits"
    by (simp add: nat_less_iff)
  moreover have "0 < int_max_str_digits" by (simp add: int_max_str_digits_def)
  ultimately show ?thesis by (intro nat_repr_length)
qed

section \<open>The claims\<close>

subsection \<open>C1: integer fields\<close>

text \<open>
  C1. For every raw row and every integer field (the pilot's daily_rate_inr, the
  mission's mission_budget_inr) the transformer looks the field up with default
  \<^verbatim>\<open>"0"\<close>, trims it and parses it as a base-10 integer; an empty trimmed text is to
  give 0, and a non-empty text that is not a valid integer is to fail. The code does the
  second and not the first. The default \<^verbatim>\<open>"0"\<close> is used only when the key is absent,
  and the reader gives every row a key for every header column: an empty cell arrives as
  the empty string, the trimmed text reaches \<^verbatim>\<open>int("")\<close>, and that raises
  \<^verbatim>\<open>ValueError\<close>. So the integer field fails on an empty and on an all-whitespace
  text, the pilot and the mission transformer fail with it, and a run over a pilot file
  with one empty rate ends with \<^verbatim>\<open>ValueError\<close> before anything is written.
\<close>

theorem empty_integer_text_raises:
  "int_field (str_row [(''daily_rate_inr'', '''')]) ''daily_rate_inr'' = Inl ValueError \<and>
   int_field (str_row [(''daily_rate_inr'', ''  '')]) ''daily_rate_inr'' = Inl ValueError \<and>
   transform_pilot (str_row [(''pilot_id'', ''P1''), (''daily_rate_inr'', '''')])
     = Inl ValueError \<and>
   transform_mission (str_row [(''project_id'', ''M1''), (''mission_budget_inr'', '''')])
     = Inl ValueError \<and>
   parse_csv_to_records
       [path_join CSV_DIR ''pilot_roster.csv'' \<mapsto> [[''pilot_id'', ''daily_rate_inr''], [''P1'', '''']]]
       (path_join CSV_DIR ''pilot_roster.csv'')
     = Inr [str_row [(''pilot_id'', ''P1''), (''daily_rate_inr'', '''')]] \<and>
   main \<lparr>csv_files =
            [path_join CSV_DIR ''pilot_roster.csv'' \<mapsto> [[''pilot_id'', ''daily_rate_inr''], [''P1'', '''']],
             path_join CSV_DIR ''drone_fleet.csv'' \<mapsto> [[''drone_id''], [''D1'']],
             path_join CSV_DIR ''missions.csv'' \<mapsto> [[''project_id''], [''M1'']]],
          json_files = Map.empty, stdout = []\<rparr>
     = (Inl ValueError,
        \<lparr>csv_files =
            [path_join CSV_DIR ''pilot_roster.csv'' \<mapsto> [[''pilot_id'', ''daily_rate_inr''], [''P1'', '''']],
             path_join CSV_DIR ''drone_fleet.csv'' \<mapsto> [[''drone_id''], [''D1'']],
             path_join CSV_DIR ''missions.csv'' \<mapsto> [[''project_id''], [''M1'']]],
          json_files = Map.empty, stdout = []\<rparr>)"
proof -
  let ?F = "[path_join CSV_DIR ''pilot_roster.csv'' \<mapsto> [[''pilot_id'', ''daily_rate_inr''], [''P1'', '''']],
             path_join CSV_DIR ''drone_fleet.csv'' \<mapsto> [[''drone_id''], [''D1'']],
             path_join CSV_DIR ''missions.csv'' \<mapsto> [[''project_id''], [''M1'']]]"
  let ?w = "\<lparr>csv_files = ?F, json_files = Map.empty, stdout = []\<rparr>"
  have 1: "int_field (str_row [(''daily_rate_inr'', '''')]) ''daily_rate_inr'' = Inl ValueError"
    "int_field (str_row [(''daily_rate_inr'', ''  '')]) ''daily_rate_inr'' = Inl ValueError"
    "transform_pilot (str_row [(''pilot_id'', ''P1''), (''daily_rate_inr'', '''')])
       = Inl ValueError"
    "transform_mission (str_row [(''project_id'', ''M1''), (''mission_budget_inr'', '''')])
       = Inl ValueError"
    by (simp_all add: eval_defs)
  have 2: "parse_csv_to_records
       [path_join CSV_DIR ''pilot_roster.csv'' \<mapsto> [[''pilot_id'', ''daily_rate_inr''], [''P1'', '''']]]
       (path_join CSV_DIR ''pilot_roster.csv'')
     = Inr [str_row [(''pilot_id'', ''P1''), (''daily_rate_inr'', '''')]]"
    by (simp add: reader_defs str_row_def)
  have c: "conversion transform_pilot ''pilot_roster.csv'' ?F = Inl ValueError"
    by (simp add: conversion_def reader_defs path_defs eval_defs)
  have 3: "main ?w = (Inl ValueError, ?w)"
    unfolding main_outcome by (simp add: outcome_def c)
  from 1 2 3 show ?thesis by blast
qed

subsection \<open>C2: what a normalised entity holds\<close>

text \<open>
  Against C2 as stated: a numeric field can be negative. The text \<^verbatim>\<open>-5\<close> is a valid
  integer literal and no transformer checks the sign.
\<close>

theorem numeric_field_negative_counterexample:
  "transform_pilot (str_row [(''daily_rate_inr'', ''-5'')])
     = Inr [(''pilot_id'', StrV ''''), (''name'', StrV ''''), (''skills'', ListV []),
            (''certifications'', ListV []), (''location'', StrV ''''), (''status'', StrV ''''),
            (''current_assignment'', StrV ''''), (''available_from'', StrV ''''),
            (''daily_rate_inr'', IntV (- 5))] \<and>
   transform_mission (str_row [(''mission_budget_inr'', ''-5'')])
     = Inr [(''project_id'', StrV ''''), (''client'', StrV ''''), (''location'', StrV ''''),
            (''required_skills'', ListV []), (''required_certs'', ListV []),
            (''start_date'', StrV ''''), (''end_date'', StrV ''''), (''priority'', StrV ''''),
            (''mission_budget_inr'', IntV (- 5)), (''weather_forecast'', StrV '''')] \<and>
   (- 5 :: int) < 0"
  by (simp add: eval_defs)

text \<open>
  C2, amended. For every entity a transformer returns: every string field is its raw value
  (the empty string when absent) with the surrounding whitespace removed, that is, the raw
  value is whitespace, then the field, then whitespace, and a non-empty field neither
  starts nor ends with whitespace; every list-valued field has no empty-string element;
  every numeric field is an integer, which may be negative, and is zero when the raw value
  is absent.
\<close>

theorem transformers_normalise:
  "(transform_pilot raw = Inr e \<longrightarrow>
      normalised raw
        [''pilot_id'', ''name'', ''location'', ''status'', ''current_assignment'',
         ''available_from'']
        [''skills'', ''certifications''] [''daily_rate_inr''] e) \<and>
   (transform_drone raw = Inr e \<longrightarrow>
      normalised raw
        [''drone_id'', ''model'', ''status'', ''location'', ''current_assignment'',
         ''maintenance_due'', ''weather_resistance'']
        [''capabilities''] [] e) \<and>
   (transform_mission raw = Inr e \<longrightarrow>
      normalised raw
        [''project_id'', ''client'', ''location'', ''start_date'', ''end_date'', ''priority'',
         ''weather_forecast'']
        [''required_skills'', ''required_certs''] [''mission_budget_inr''] e) \<and>
   (\<exists>l r. v = l @ py_strip v @ r \<and> list_all isspace l \<and> list_all isspace r) \<and>
   (py_strip v \<noteq> [] \<longrightarrow> \<not> isspace (hd (py_strip v)) \<and> \<not> isspace (last (py_strip v)))"
proof -
  have "list_all isspace (takeWhile isspace v)"
    by (simp add: list_all_iff) (meson set_takeWhileD)
  moreover have "list_all isspace (rev (takeWhile isspace (rev (dropWhile isspace v))))"
    by (simp add: list_all_iff) (meson set_takeWhileD)
  ultimately have "\<exists>l r. v = l @ py_strip v @ r \<and> list_all isspace l \<and> list_all isspace r"
    using py_strip_decomp[of v] by blast
  then show ?thesis
    using transform_pilot_normalised[of raw e] transform_drone_normalised[of raw e]
      transform_mission_normalised[of raw e] py_strip_hd[of v] py_strip_last[of v]
    by blast
qed

text \<open>The statement at a drone row with a padded model and an empty capability.\<close>

theorem transformers_normalise_witness:
  "transform_drone (str_row [(''model'', '' M300 ''), (''capabilities'', ''RGB, ,Thermal'')])
     = Inr [(''drone_id'', StrV ''''), (''model'', StrV ''M300''),
            (''capabilities'', ListV [''RGB'', ''Thermal'']), (''status'', StrV ''''),
            (''location'', StrV ''''), (''current_assignment'', StrV ''''),
            (''maintenance_due'', StrV ''''), (''weather_resistance'', StrV '''')] \<and>
   normalised (str_row [(''model'', '' M300 ''), (''capabilities'', ''RGB, ,Thermal'')])
        [''drone_id'', ''model'', ''status'', ''location'', ''current_assignment'',
         ''maintenance_due'', ''weather_resistance'']
        [''capabilities''] []
        [(''drone_id'', StrV ''''), (''model'', StrV ''M300''),
            (''capabilities'', ListV [''RGB'', ''Thermal'']), (''status'', StrV ''''),
            (''location'', StrV ''''), (''current_assignment'', StrV ''''),
            (''maintenance_due'', StrV ''''), (''weather_resistance'', StrV '''')] \<and>
   py_strip '' M300 '' = ''M300'' \<and> \<not> isspace (hd ''M300'') \<and> \<not> isspace (last ''M300'')"
proof -
  let ?r = "str_row [(''model'', '' M300 ''), (''capabilities'', ''RGB, ,Thermal'')]"
  let ?e = "[(''drone_id'', StrV ''''), (''model'', StrV ''M300''),
            (''capabilities'', ListV [''RGB'', ''Thermal'']), (''status'', StrV ''''),
            (''location'', StrV ''''), (''current_assignment'', StrV ''''),
            (''maintenance_due'', StrV ''''), (''weather_resistance'', StrV '''')]"
  have 1: "transform_drone ?r = Inr ?e" by (simp add: eval_defs)
  have 2: "py_strip '' M300 '' = ''M300''" by (simp add: py_strip_def isspace_def)
  have 3: "''M300'' \<noteq> []" by simp
  from transformers_normalise[of ?r ?e "'' M300 ''"] 1 2 3 show ?thesis by simp
qed

subsection \<open>C3: the row reader\<close>

text \<open>
  C3. The row reader is to leave out exactly the rows in which every field value is empty
  or missing \<^verbatim>\<open>(# Skip empty rows)\<close>, so that the output has as many rows as the input has
  data rows only if none of them is all empty. The code misses one case. A row with more
  cells than the header has columns keeps its surplus cells as a list under the key
  \<^verbatim>\<open>None\<close>; that list is not empty, so \<^verbatim>\<open>any(row.values())\<close> is true and the
  row is kept although every one of its cells is empty. Under the header \<^verbatim>\<open>a,b\<close> the
  data row \<^verbatim>\<open>,,\<close> gives one record, and the output has as many rows as the input;
  the row \<^verbatim>\<open>,\<close> of two empty cells is left out, as is a blank line.
\<close>

theorem long_empty_row_is_kept:
  "parse_csv_to_records [''f'' \<mapsto> [[''a'', ''b''], ['''', '''', '''']]] ''f''
     = Inr [[(Some ''a'', Str ''''), (Some ''b'', Str ''''), (None, StrList [''''])]] \<and>
   list_all (\<lambda>c. c = []) ['''', '''', ''''] \<and>
   parse_csv_to_records [''f'' \<mapsto> [[''a''], ['''', '''']]] ''f''
     = Inr [[(Some ''a'', Str ''''), (None, StrList [''''])]] \<and>
   parse_csv_to_records [''f'' \<mapsto> [[''a'', ''b''], ['''', ''''], []]] ''f'' = Inr []"
  by (simp add: reader_defs)

subsection \<open>C4: list-valued fields\<close>

text \<open>
  C4. For every raw value of a list-valued field the transformer splits it on commas,
  trims each piece, drops the empty pieces and keeps the order of the others; the result
  may have no element. Splitting on commas means: the pieces contain no comma and joined
  with commas give the value back, and pieces without commas are recovered from their
  join. The five list fields of the three transformers are computed so. In particular
  \<^verbatim>\<open>"a, b ,,c"\<close> gives \<^verbatim>\<open>["a", "b", "c"]\<close>, and \<^verbatim>\<open>" , "\<close> and an absent field
  give the empty list.
\<close>

theorem list_field_split_trim_drop:
  "(dict_get raw k [] = Str v \<longrightarrow>
      list_field raw k
        = Inr (filter (\<lambda>p. p \<noteq> []) (map py_strip (py_split (CHR '','') v)))) \<and>
   join '','' (py_split (CHR '','') v) = v \<and>
   (\<forall>p\<in>set (py_split (CHR '','') v). CHR '','' \<notin> set p) \<and>
   (ps \<noteq> [] \<and> (\<forall>p\<in>set ps. CHR '','' \<notin> set p) \<longrightarrow>
      py_split (CHR '','') (join '','' ps) = ps) \<and>
   (transform_pilot raw = Inr e \<longrightarrow>
      (\<forall>k\<in>set [''skills'', ''certifications''].
         \<exists>xs. list_field raw k = Inr xs \<and> map_of e k = Some (ListV xs))) \<and>
   (transform_drone raw = Inr e \<longrightarrow>
      (\<forall>k\<in>set [''capabilities''].
         \<exists>xs. list_field raw k = Inr xs \<and> map_of e k = Some (ListV xs))) \<and>
   (transform_mission raw = Inr e \<longrightarrow>
      (\<forall>k\<in>set [''required_skills'', ''required_certs''].
         \<exists>xs. list_field raw k = Inr xs \<and> map_of e k = Some (ListV xs))) \<and>
   list_field (str_row [(k, ''a, b ,,c'')]) k = Inr [''a'', ''b'', ''c''] \<and>
   list_field (str_row [(k, '' , '')]) k = Inr [] \<and>
   list_field (str_row []) k = Inr []"
proof -
  have "list_field (str_row [(k, ''a, b ,,c'')]) k = Inr [''a'', ''b'', ''c'']"
    by (simp add: eval_defs)
  moreover have "list_field (str_row [(k, '' , '')]) k = Inr []"
    by (simp add: eval_defs)
  moreover have "list_field (str_row []) k = Inr []"
    by (simp add: eval_defs)
  moreover have "\<forall>p\<in>set (py_split (CHR '','') v). CHR '','' \<notin> set p"
    using py_split_no_sep by blast
  moreover have "ps \<noteq> [] \<and> (\<forall>p\<in>set ps. CHR '','' \<notin> set p) \<longrightarrow>
      py_split (CHR '','') (join '','' ps) = ps"
    using py_split_join[of ps "CHR '',''"] by blast
  moreover note list_field_Str[of raw k v] join_py_split[of "CHR '',''" v]
    transform_list_fields[of raw e]
  ultimately show ?thesis by blast
qed

text \<open>The statement at a pilot row whose skills are \<^verbatim>\<open>"x,, y"\<close>.\<close>

theorem list_field_split_trim_drop_witness:
  "dict_get (str_row [(''skills'', ''x,, y'')]) ''skills'' [] = Str ''x,, y'' \<and>
   list_field (str_row [(''skills'', ''x,, y'')]) ''skills'' = Inr [''x'', ''y''] \<and>
   py_split (CHR '','') ''x,, y'' = [''x'', '''', '' y''] \<and>
   py_split (CHR '','') (join '','' [''x'', '''', '' y'']) = [''x'', '''', '' y''] \<and>
   (\<exists>xs. list_field (str_row [(''skills'', ''x,, y'')]) ''certifications'' = Inr xs \<and>
         map_of [(''pilot_id'', StrV ''''), (''name'', StrV ''''),
                 (''skills'', ListV [''x'', ''y'']), (''certifications'', ListV []),
                 (''location'', StrV ''''), (''status'', StrV ''''),
                 (''current_assignment'', StrV ''''), (''available_from'', StrV ''''),
                 (''daily_rate_inr'', IntV 0)] ''certifications'' = Some (ListV xs))"
proof -
  let ?r = "str_row [(''skills'', ''x,, y'')]"
  let ?e = "[(''pilot_id'', StrV ''''), (''name'', StrV ''''),
                 (''skills'', ListV [''x'', ''y'']), (''certifications'', ListV []),
                 (''location'', StrV ''''), (''status'', StrV ''''),
                 (''current_assignment'', StrV ''''), (''available_from'', StrV ''''),
                 (''daily_rate_inr'', IntV 0)]"
  let ?ps = "[''x'', '''', '' y'']"
  note t = list_field_split_trim_drop[of ?r "''skills''" "''x,, y''" ?ps ?e]
  have 1: "dict_get ?r ''skills'' [] = Str ''x,, y''" by (simp add: str_row_def dict_get_def)
  have 2: "py_split (CHR '','') ''x,, y'' = ?ps" by simp
  have 3: "filter (\<lambda>p. p \<noteq> []) (map py_strip ?ps) = [''x'', ''y'']"
    by (simp add: py_strip_def isspace_def)
  have 4: "?ps \<noteq> [] \<and> (\<forall>p\<in>set ?ps. CHR '','' \<notin> set p)" by simp
  have 5: "transform_pilot ?r = Inr ?e" by (simp add: eval_defs)
  have "list_field ?r ''skills'' = Inr [''x'', ''y'']" using t 1 2 3 by simp
  moreover have "py_split (CHR '','') (join '','' ?ps) = ?ps" using t 4 by blast
  moreover have "\<exists>xs. list_field ?r ''certifications'' = Inr xs \<and>
         map_of ?e ''certifications'' = Some (ListV xs)"
    using t 5 by simp
  ultimately show ?thesis using 1 2 by blast
qed

subsection \<open>C5: the end-to-end pilot scenario\<close>

text \<open>
  C5. The pilot transformer applied to the row with pilot_id \<^verbatim>\<open>P001\<close>, name
  \<^verbatim>\<open>" Jane Doe "\<close>, skills \<^verbatim>\<open>"Thermal, LiDAR"\<close>, no certifications, location
  Pune, status available, no current assignment, available from 2024-01-01 and daily rate
  \<^verbatim>\<open>"5000"\<close> returns exactly the record of the scenario: the name trimmed, the skills
  split into two trimmed elements, the certifications an empty list, the rate the integer
  5000, and the nine keys in the order of the dict display.
\<close>

theorem transform_pilot_scenario:
  "transform_pilot
     (str_row [(''pilot_id'', ''P001''), (''name'', '' Jane Doe ''),
               (''skills'', ''Thermal, LiDAR''), (''certifications'', ''''),
               (''location'', ''Pune''), (''status'', ''available''),
               (''current_assignment'', ''''), (''available_from'', ''2024-01-01''),
               (''daily_rate_inr'', ''5000'')])
   = Inr [(''pilot_id'', StrV ''P001''), (''name'', StrV ''Jane Doe''),
          (''skills'', ListV [''Thermal'', ''LiDAR'']), (''certifications'', ListV []),
          (''location'', StrV ''Pune''), (''status'', StrV ''available''),
          (''current_assignment'', StrV ''''), (''available_from'', StrV ''2024-01-01''),
          (''daily_rate_inr'', IntV 5000)]"
  by (simp add: eval_defs)

subsection \<open>C6: the first failure ends the run\<close>

text \<open>
  C6. The three conversions run in the order pilots, drones, missions. A conversion that
  fails leaves the world as it found it, and the run ends there with its exception: the
  documents of the later conversions are not written and their lines are not printed. So
  a failure of the pilots conversion leaves the world unchanged; a failure of the drones
  conversion leaves the pilots document and line only; a failure of the missions
  conversion leaves those of pilots and drones. When all three succeed, each has written
  its document and printed its line in that order, and the closing line follows.
\<close>

theorem main_halts_at_first_failure:
  "(fst (convert_pilots w) = Inl e \<longrightarrow> main w = (Inl e, w)) \<and>
   (convert_pilots w = (Inr (), w1) \<and> fst (convert_drones w1) = Inl e \<longrightarrow>
      main w = (Inl e, w1)) \<and>
   (convert_pilots w = (Inr (), w1) \<and> convert_drones w1 = (Inr (), w2) \<and>
    fst (convert_missions w2) = Inl e \<longrightarrow>
      main w = (Inl e, w2)) \<and>
   (convert_pilots w = (Inr (), w1) \<and> convert_drones w1 = (Inr (), w2) \<and>
    convert_missions w2 = (Inr (), w3) \<longrightarrow>
      main w = (Inr (), w3\<lparr>stdout := stdout w3 @ [AllParsed]\<rparr>)) \<and>
   (convert_pilots w = (Inr (), w1) \<longrightarrow>
      (\<exists>pilots. w1 = written ''pilots.json'' ''pilots'' pilots w)) \<and>
   (convert_drones w1 = (Inr (), w2) \<longrightarrow>
      (\<exists>drones. w2 = written ''drones.json'' ''drones'' drones w1)) \<and>
   (convert_missions w2 = (Inr (), w3) \<longrightarrow>
      (\<exists>missions. w3 = written ''missions.json'' ''missions'' missions w2))"
proof -
  have p: "fst (convert_pilots w) = Inl e \<longrightarrow> convert_pilots w = (Inl e, w)"
    unfolding convert_pilots_def using convert_fails by blast
  have d: "fst (convert_drones w1) = Inl e \<longrightarrow> convert_drones w1 = (Inl e, w1)"
    unfolding convert_drones_def using convert_fails by blast
  have m: "fst (convert_missions w2) = Inl e \<longrightarrow> convert_missions w2 = (Inl e, w2)"
    unfolding convert_missions_def using convert_fails by blast
  have 1: "fst (convert_pilots w) = Inl e \<longrightarrow> main w = (Inl e, w)"
    using p by (auto simp: main_unfold)
  have 2: "convert_pilots w = (Inr (), w1) \<and> fst (convert_drones w1) = Inl e \<longrightarrow>
      main w = (Inl e, w1)"
    using d by (auto simp: main_unfold)
  have 3: "convert_pilots w = (Inr (), w1) \<and> convert_drones w1 = (Inr (), w2) \<and>
    fst (convert_missions w2) = Inl e \<longrightarrow> main w = (Inl e, w2)"
    using m by (auto simp: main_unfold)
  have 4: "convert_pilots w = (Inr (), w1) \<and> convert_drones w1 = (Inr (), w2) \<and>
    convert_missions w2 = (Inr (), w3) \<longrightarrow>
      main w = (Inr (), w3\<lparr>stdout := stdout w3 @ [AllParsed]\<rparr>)"
    by (auto simp: main_unfold)
  have 5: "convert_pilots w = (Inr (), w1) \<longrightarrow>
      (\<exists>pilots. w1 = written ''pilots.json'' ''pilots'' pilots w)"
    unfolding convert_pilots_def using convert_succeeds by blast
  have 6: "convert_drones w1 = (Inr (), w2) \<longrightarrow>
      (\<exists>drones. w2 = written ''drones.json'' ''drones'' drones w1)"
    unfolding convert_drones_def using convert_succeeds by blast
  have 7: "convert_missions w2 = (Inr (), w3) \<longrightarrow>
      (\<exists>missions. w3 = written ''missions.json'' ''missions'' missions w2)"
    unfolding convert_missions_def using convert_succeeds by blast
  from 1 2 3 4 5 6 7 show ?thesis by blast
qed

text \<open>
  The statement at a run whose pilots file holds a non-numeric rate, with the other two
  files in place, and at a run whose drones file is missing.
\<close>

theorem main_halts_at_first_failure_witness:
  "main \<lparr>csv_files = [path_join CSV_DIR ''pilot_roster.csv'' \<mapsto> [[''daily_rate_inr''], [''abc'']],
                       path_join CSV_DIR ''drone_fleet.csv'' \<mapsto> [[''drone_id''], [''D1'']],
                       path_join CSV_DIR ''missions.csv'' \<mapsto> [[''project_id''], [''M1'']]],
          json_files = Map.empty, stdout = []\<rparr>
     = (Inl ValueError,
        \<lparr>csv_files = [path_join CSV_DIR ''pilot_roster.csv'' \<mapsto> [[''daily_rate_inr''], [''abc'']],
                       path_join CSV_DIR ''drone_fleet.csv'' \<mapsto> [[''drone_id''], [''D1'']],
                       path_join CSV_DIR ''missions.csv'' \<mapsto> [[''project_id''], [''M1'']]],
          json_files = Map.empty, stdout = []\<rparr>) \<and>
   main \<lparr>csv_files = [path_join CSV_DIR ''pilot_roster.csv'' \<mapsto> [[''pilot_id''], []]],
          json_files = Map.empty, stdout = []\<rparr>
     = (Inl FileNotFoundError,
        \<lparr>csv_files = [path_join CSV_DIR ''pilot_roster.csv'' \<mapsto> [[''pilot_id''], []]],
          json_files = [path_join OUTPUT_DIR ''pilots.json'' \<mapsto> ''[]''],
          stdout = [Parsed 0 ''pilots'' ''src/data/pilots.json'']\<rparr>)"
proof -
  let ?w = "\<lparr>csv_files = [path_join CSV_DIR ''pilot_roster.csv'' \<mapsto> [[''daily_rate_inr''], [''abc'']],
                       path_join CSV_DIR ''drone_fleet.csv'' \<mapsto> [[''drone_id''], [''D1'']],
                       path_join CSV_DIR ''missions.csv'' \<mapsto> [[''project_id''], [''M1'']]],
          json_files = Map.empty, stdout = []\<rparr>"
  let ?v = "\<lparr>csv_files = [path_join CSV_DIR ''pilot_roster.csv'' \<mapsto> [[''pilot_id''], []]],
          json_files = Map.empty, stdout = []\<rparr>"
  let ?v1 = "\<lparr>csv_files = [path_join CSV_DIR ''pilot_roster.csv'' \<mapsto> [[''pilot_id''], []]],
          json_files = [path_join OUTPUT_DIR ''pilots.json'' \<mapsto> ''[]''],
          stdout = [Parsed 0 ''pilots'' ''src/data/pilots.json'']\<rparr>"
  have c1: "conversion transform_pilot ''pilot_roster.csv'' (csv_files ?w) = Inl ValueError"
    by (simp add: conversion_def reader_defs path_defs eval_defs)
  have 1: "fst (convert_pilots ?w) = Inl ValueError"
    unfolding convert_pilots_def convert_eq c1 by simp
  have c2: "conversion transform_pilot ''pilot_roster.csv'' (csv_files ?v) = Inr []"
    by (simp add: conversion_def reader_defs path_defs)
  have 2: "convert_pilots ?v = (Inr (), ?v1)"
    unfolding convert_pilots_def convert_eq c2
    by (simp add: written_def json_dumps_def encode_list_def)
  have c3: "conversion transform_drone ''drone_fleet.csv'' (csv_files ?v1) = Inl FileNotFoundError"
    by (simp add: conversion_def reader_defs path_defs)
  have 3: "fst (convert_drones ?v1) = Inl FileNotFoundError"
    unfolding convert_drones_def convert_eq c3 by simp
  have "main ?w = (Inl ValueError, ?w)"
    using main_halts_at_first_failure[of ?w ValueError ?w ?w ?w] 1 by blast
  moreover have "main ?v = (Inl FileNotFoundError, ?v1)"
    using main_halts_at_first_failure[of ?v FileNotFoundError ?v1 ?v1 ?v1] 2 3 by blast
  ultimately show ?thesis by blast
qed

subsection \<open>C7: writing and reading back\<close>



subsection \<open>C8: running twice\<close>

text \<open>
  C8. Running the orchestrator a second time on the world the first run left, with the
  input files unchanged, ends the same way and leaves the same output documents, byte for
  byte; the run does not change the input files. The documents of a successful run depend
  on the input files only: whatever the output files held before is replaced, not
  appended to.
\<close>

theorem main_twice_same_documents:
  "fst (main (snd (main w))) = fst (main w) \<and>
   json_files (snd (main (snd (main w)))) = json_files (snd (main w)) \<and>
   csv_files (snd (main w)) = csv_files w \<and>
   (csv_files v = csv_files w \<and> fst (main w) = Inr () \<longrightarrow>
      fst (main v) = Inr () \<and>
      (\<forall>name\<in>set [''pilots.json'', ''drones.json'', ''missions.json''].
         json_files (snd (main v)) (path_join OUTPUT_DIR name)
           = json_files (snd (main w)) (path_join OUTPUT_DIR name)))"
proof -
  have c: "csv_files (snd (main w)) = csv_files w"
    by (simp add: main_outcome outcome_csv_files)
  have 1: "fst (main (snd (main w))) = fst (main w)"
    using outcome_result[of "csv_files w" "snd (outcome (csv_files w) w)" w]
    by (simp add: main_outcome outcome_csv_files)
  have 2: "json_files (snd (main (snd (main w)))) = json_files (snd (main w))"
    using outcome_twice[of "csv_files w" w] by (simp add: main_outcome outcome_csv_files)
  have 3: "csv_files v = csv_files w \<and> fst (main w) = Inr () \<longrightarrow>
      fst (main v) = Inr () \<and>
      (\<forall>name\<in>set [''pilots.json'', ''drones.json'', ''missions.json''].
         json_files (snd (main v)) (path_join OUTPUT_DIR name)
           = json_files (snd (main w)) (path_join OUTPUT_DIR name))"
    using outcome_result[of "csv_files w" v w] outcome_documents[of "csv_files w" w _ v]
    by (simp add: main_outcome)
  from c 1 2 3 show ?thesis by blast
qed

text \<open>
  The statement at two worlds with the same input files, one of which holds a stale
  drones document.
\<close>

theorem main_twice_same_documents_witness:
  "fst (main \<lparr>csv_files = [path_join CSV_DIR ''pilot_roster.csv'' \<mapsto> [[''pilot_id''], [''P1'']],
                            path_join CSV_DIR ''drone_fleet.csv'' \<mapsto> [[''drone_id'']],
                            path_join CSV_DIR ''missions.csv'' \<mapsto> [[''project_id'']]],
               json_files = [path_join OUTPUT_DIR ''drones.json'' \<mapsto> ''stale''],
               stdout = []\<rparr>) = Inr () \<and>
   fst (main \<lparr>csv_files = [path_join CSV_DIR ''pilot_roster.csv'' \<mapsto> [[''pilot_id''], [''P1'']],
                            path_join CSV_DIR ''drone_fleet.csv'' \<mapsto> [[''drone_id'']],
                            path_join CSV_DIR ''missions.csv'' \<mapsto> [[''project_id'']]],
               json_files = Map.empty,
               stdout = []\<rparr>) = Inr () \<and>
   json_files
     (snd (main \<lparr>csv_files = [path_join CSV_DIR ''pilot_roster.csv'' \<mapsto> [[''pilot_id''], [''P1'']],
                            path_join CSV_DIR ''drone_fleet.csv'' \<mapsto> [[''drone_id'']],
                            path_join CSV_DIR ''missions.csv'' \<mapsto> [[''project_id'']]],
               json_files = Map.empty,
               stdout = []\<rparr>)) (path_join OUTPUT_DIR ''drones.json'')
   = json_files
     (snd (main \<lparr>csv_files = [path_join CSV_DIR ''pilot_roster.csv'' \<mapsto> [[''pilot_id''], [''P1'']],
                            path_join CSV_DIR ''drone_fleet.csv'' \<mapsto> [[''drone_id'']],
                            path_join CSV_DIR ''missions.csv'' \<mapsto> [[''project_id'']]],
               json_files = [path_join OUTPUT_DIR ''drones.json'' \<mapsto> ''stale''],
               stdout = []\<rparr>)) (path_join OUTPUT_DIR ''drones.json'') \<and>
   json_files
     (snd (main \<lparr>csv_files = [path_join CSV_DIR ''pilot_roster.csv'' \<mapsto> [[''pilot_id''], [''P1'']],
                            path_join CSV_DIR ''drone_fleet.csv'' \<mapsto> [[''drone_id'']],
                            path_join CSV_DIR ''missions.csv'' \<mapsto> [[''project_id'']]],
               json_files = [path_join OUTPUT_DIR ''drones.json'' \<mapsto> ''stale''],
               stdout = []\<rparr>)) (path_join OUTPUT_DIR ''drones.json'') = Some ''[]''"
proof -
  let ?F = "[path_join CSV_DIR ''pilot_roster.csv'' \<mapsto> [[''pilot_id''], [''P1'']],
             path_join CSV_DIR ''drone_fleet.csv'' \<mapsto> [[''drone_id'']],
             path_join CSV_DIR ''missions.csv'' \<mapsto> [[''project_id'']]]"
  let ?w = "\<lparr>csv_files = ?F, json_files = [path_join OUTPUT_DIR ''drones.json'' \<mapsto> ''stale''],
             stdout = []\<rparr>"
  let ?v = "\<lparr>csv_files = ?F, json_files = Map.empty, stdout = []\<rparr>"
  have p: "\<exists>pilots. conversion transform_pilot ''pilot_roster.csv'' ?F = Inr pilots"
    by (simp add: conversion_def reader_defs path_defs eval_defs)
  have d: "conversion transform_drone ''drone_fleet.csv'' ?F = Inr []"
    by (simp add: conversion_def reader_defs path_defs)
  have m: "conversion transform_mission ''missions.csv'' ?F = Inr []"
    by (simp add: conversion_def reader_defs path_defs)
  from p obtain pilots where p': "conversion transform_pilot ''pilot_roster.csv'' ?F = Inr pilots"
    by blast
  have w: "fst (main ?w) = Inr ()"
    unfolding main_outcome by (simp add: outcome_def p' d m)
  have doc: "json_files (snd (main ?w)) (path_join OUTPUT_DIR ''drones.json'') = Some ''[]''"
    unfolding main_outcome using output_paths_distinct
    by (simp add: outcome_def p' d m written_def json_dumps_def encode_list_def)
  have same: "csv_files ?v = csv_files ?w" by simp
  note t = main_twice_same_documents[of ?w ?v]
  have "fst (main ?v) = Inr ()" using t same w by blast
  moreover have "json_files (snd (main ?v)) (path_join OUTPUT_DIR ''drones.json'')
                   = json_files (snd (main ?w)) (path_join OUTPUT_DIR ''drones.json'')"
    using t same w by simp
  ultimately show ?thesis using w doc by blast
qed

subsection \<open>C9: the drone transformer never fails\<close>

text \<open>
  C9. The drone transformer is total on rows whose keys and values are strings: whatever
  keys are there or missing and whatever the values hold, it returns the normalized drone
  record of the row. That record has the eight drone keys in order; its seven string
  fields are the trimmed texts of the row, the empty string where the key is missing; its
  capabilities are the trimmed non-empty pieces of the text between commas. It reads no
  integer field. The pilot and the mission transformer do, and fail with
  \<^verbatim>\<open>ValueError\<close> on such a row when the integer field holds \<^verbatim>\<open>abc\<close>.
\<close>

theorem transform_drone_never_fails:
  "transform_drone (str_row kvs)
     = Inr [(''drone_id'', StrV (py_strip (cell kvs ''drone_id''))),
            (''model'', StrV (py_strip (cell kvs ''model''))),
            (''capabilities'',
               ListV (filter (\<lambda>p. p \<noteq> [])
                        (map py_strip (py_split (CHR '','') (cell kvs ''capabilities''))))),
            (''status'', StrV (py_strip (cell kvs ''status''))),
            (''location'', StrV (py_strip (cell kvs ''location''))),
            (''current_assignment'', StrV (py_strip (cell kvs ''current_assignment''))),
            (''maintenance_due'', StrV (py_strip (cell kvs ''maintenance_due''))),
            (''weather_resistance'', StrV (py_strip (cell kvs ''weather_resistance'')))] \<and>
   (\<exists>e. transform_drone (str_row kvs) = Inr e \<and> map fst e = drone_keys \<and>
        normalised (str_row kvs)
          [''drone_id'', ''model'', ''status'', ''location'', ''current_assignment'',
           ''maintenance_due'', ''weather_resistance'']
          [''capabilities''] [] e) \<and>
   transform_pilot (str_row [(''daily_rate_inr'', ''abc'')]) = Inl ValueError \<and>
   transform_mission (str_row [(''mission_budget_inr'', ''abc'')]) = Inl ValueError"
proof -
  have rec: "transform_drone (str_row kvs)
     = Inr [(''drone_id'', StrV (py_strip (cell kvs ''drone_id''))),
            (''model'', StrV (py_strip (cell kvs ''model''))),
            (''capabilities'',
               ListV (filter (\<lambda>p. p \<noteq> [])
                        (map py_strip (py_split (CHR '','') (cell kvs ''capabilities''))))),
            (''status'', StrV (py_strip (cell kvs ''status''))),
            (''location'', StrV (py_strip (cell kvs ''location''))),
            (''current_assignment'', StrV (py_strip (cell kvs ''current_assignment''))),
            (''maintenance_due'', StrV (py_strip (cell kvs ''maintenance_due''))),
            (''weather_resistance'', StrV (py_strip (cell kvs ''weather_resistance'')))]"
    by (simp add: transform_drone_def str_field_def list_field_def dict_get_str_row cell_def
          filter_map comp_def)
  obtain e where e: "transform_drone (str_row kvs) = Inr e"
    using transform_drone_total by blast
  have "map fst e = drone_keys" using e by (rule transform_keys)
  moreover have "normalised (str_row kvs)
          [''drone_id'', ''model'', ''status'', ''location'', ''current_assignment'',
           ''maintenance_due'', ''weather_resistance'']
          [''capabilities''] [] e"
    using e by (rule transform_drone_normalised)
  moreover have "transform_pilot (str_row [(''daily_rate_inr'', ''abc'')]) = Inl ValueError"
    by (simp add: eval_defs)
  moreover have "transform_mission (str_row [(''mission_budget_inr'', ''abc'')]) = Inl ValueError"
    by (simp add: eval_defs)
  ultimately show ?thesis using rec e by blast
qed

text \<open>
  The statement at a row with a padded model, two capabilities around an empty piece, a
  column the transformer does not read, and the other drone columns missing.
\<close>

theorem transform_drone_never_fails_witness:
  "transform_drone
     (str_row [(''model'', '' M300 ''), (''capabilities'', ''RGB, ,Thermal''),
               (''colour'', ''red'')])
     = Inr [(''drone_id'', StrV ''''), (''model'', StrV ''M300''),
            (''capabilities'', ListV [''RGB'', ''Thermal'']), (''status'', StrV ''''),
            (''location'', StrV ''''), (''current_assignment'', StrV ''''),
            (''maintenance_due'', StrV ''''), (''weather_resistance'', StrV '''')]"
  using transform_drone_never_fails
          [of "[(''model'', '' M300 ''), (''capabilities'', ''RGB, ,Thermal''),
                (''colour'', ''red'')]"]
  by (simp add: cell_def py_strip_def isspace_def)

subsection \<open>C10: the keys of an entity\<close>




end
